theory Spec2Isabelle
  imports Complex_Main "HOL-Library.Log_Nat"
begin

section \<open>The simple motion planner of tesseract_planning\<close>

text \<open>
  A shallow embedding of \<^verbatim>\<open>simple_motion_planner.cpp\<close> and of the longest-valid-segment
  step generators of \<^verbatim>\<open>lvs_interpolation.cpp\<close>.

  Conventions of the embedding.
  \<^item> A C++ \<^verbatim>\<open>double\<close> that holds a length, a distance or a joint value is a
    \<^typ>\<open>real\<close>, and the Euclidean norm of a vector is the exact one (the rounding inside
    \<^verbatim>\<open>norm()\<close> is not modelled). The quotient \<^verbatim>\<open>dist / longest_valid_segment_length\<close>
    that a step count is computed from is rounded to the nearest double (IEEE 754
    binary64, ties to even); a division by zero and a quotient beyond the largest double
    give no finite value.
  \<^item> A C++ \<^verbatim>\<open>int\<close> has 32 bits. The conversion \<^verbatim>\<open>int(x)\<close> truncates towards zero; where
    the truncated value is not an \<^verbatim>\<open>int\<close> (or \<open>x\<close> is not finite) the C++ standard leaves
    the result undefined, and the model returns what the conversion instruction of the
    x86-64 build returns, \<^verbatim>\<open>INT_MIN\<close>. The addition \<^verbatim>\<open>+ 1\<close> wraps around. The theorems
    about step counts assume positive segment lengths and quotients below \<open>2 ^ 31 - 1\<close>,
    where none of this is reached.
  \<^item> An \<^verbatim>\<open>Eigen::VectorXd\<close> is a list of reals; an \<^verbatim>\<open>Eigen::Isometry3d\<close> is a value
    of a type parameter \<open>'p\<close>, and the operations of Eigen on it are the fields of a
    record that every generator takes as its first argument.
  \<^item> A C++ function that can throw returns \<open>exn + 'a\<close>, with \<open>Inl\<close> for the exception.
  \<^item> \<^verbatim>\<open>assert\<close> is compiled out (release build); the asserted condition is a
    hypothesis of a theorem where the theorem needs it.
\<close>

subsection \<open>Exceptions\<close>

datatype exn =
    RuntimeError string   \<comment> \<open>\<^verbatim>\<open>throw std::runtime_error(msg)\<close> in the two source files\<close>
  | OutOfRange            \<comment> \<open>\<^verbatim>\<open>std::out_of_range\<close> from \<^verbatim>\<open>.at(key)\<close>\<close>
  | UndefinedBehaviour    \<comment> \<open>a null pointer is dereferenced, or a cast has the wrong type\<close>
  | InProfile exn         \<comment> \<open>an exception that left a step generator of a profile\<close>

definition bindE :: "exn + 'a \<Rightarrow> ('a \<Rightarrow> exn + 'b) \<Rightarrow> exn + 'b" where
  "bindE m f = (case m of Inl e \<Rightarrow> Inl e | Inr x \<Rightarrow> f x)"

definition deref :: "'a option \<Rightarrow> exn + 'a" where
  "deref p = (case p of None \<Rightarrow> Inl UndefinedBehaviour | Some x \<Rightarrow> Inr x)"

definition at_key :: "('k \<rightharpoonup> 'v) \<Rightarrow> 'k \<Rightarrow> exn + 'v" where
  "at_key m k = (case m k of None \<Rightarrow> Inl OutOfRange | Some v \<Rightarrow> Inr v)"

subsection \<open>Vectors and poses\<close>

type_synonym VectorXd = "real list"

text \<open>\<^verbatim>\<open>(a - b)\<close> on two vectors of the same size, and \<^verbatim>\<open>.norm()\<close>.\<close>

definition vsub :: "VectorXd \<Rightarrow> VectorXd \<Rightarrow> VectorXd" where
  "vsub a b = map2 (\<lambda>x y. x - y) a b"

definition norm_vec :: "VectorXd \<Rightarrow> real" where
  "norm_vec v = sqrt (sum_list (map (\<lambda>x. x * x) v))"

text \<open>
  \<^verbatim>\<open>v.middleRows(start, n)\<close>: the \<open>n\<close> entries of \<open>v\<close> from index \<open>start\<close>. Eigen
  requires the block to lie inside the vector; the blocks that the search loops visit
  do, and the theorem about the search assumes that there is at least one.
\<close>

definition middleRows :: "VectorXd \<Rightarrow> nat \<Rightarrow> nat \<Rightarrow> VectorXd" where
  "middleRows v start n = take n (drop start v)"

text \<open>\<^verbatim>\<open>std::numeric_limits<double>::max()\<close>.\<close>

definition DBL_MAX :: real where
  "DBL_MAX = (2 ^ 53 - 1) * 2 ^ 971"

subsection \<open>The arithmetic of the step counts\<close>

text \<open>
  Rounding to the nearest double. \<open>round_half_even\<close> rounds a real to the nearest
  integer, a tie to the even one. \<open>binary_exponent x\<close> is the exponent \<open>e\<close> with
  \<open>2 ^ e \<le> \<bar>x\<bar> < 2 ^ (e + 1)\<close>, computed from the bit length of an integer. A double
  has a significand of 53 bits, and the last bit of a subnormal double is worth
  \<open>2 ^ (- 1074)\<close>: \<open>round_double x\<close> is the multiple of \<open>2 ^ max (e - 52) (- 1074)\<close>
  nearest to \<open>x\<close>. The overflow to an infinity is the business of \<open>double_div\<close>.
\<close>

definition round_half_even :: "real \<Rightarrow> int" where
  "round_half_even x =
     (let f = \<lfloor>x\<rfloor>; r = x - of_int f in
      if r < 1 / 2 then f else if 1 / 2 < r then f + 1 else if even f then f else f + 1)"

definition binary_exponent :: "real \<Rightarrow> int" where
  "binary_exponent x =
     (let a = \<bar>x\<bar> in
      if 1 \<le> a then bitlen \<lfloor>a\<rfloor> - 1
      else (let k = bitlen \<lfloor>1 / a\<rfloor> - 1 in if 1 / a = 2 ^ nat k then - k else - k - 1))"

definition round_double :: "real \<Rightarrow> real" where
  "round_double x =
     (if x = 0 then 0
      else let e = max (binary_exponent x - 52) (- 1074) in
           of_int (round_half_even (x / 2 powi e)) * 2 powi e)"

text \<open>
  \<^verbatim>\<open>x / y\<close> on two doubles: the rounded quotient, or \<open>None\<close> where the result is an
  infinity or a NaN (the divisor is zero, or the rounded quotient is beyond the largest
  double).
\<close>

definition double_div :: "real \<Rightarrow> real \<Rightarrow> real option" where
  "double_div x y =
     (if y = 0 then None
      else let q = round_double (x / y) in if \<bar>q\<bar> < 2 ^ 1024 then Some q else None)"

text \<open>\<^verbatim>\<open>INT_MIN\<close> and \<^verbatim>\<open>INT_MAX\<close> of a 32-bit \<^verbatim>\<open>int\<close>.\<close>

definition INT_MIN :: int where
  "INT_MIN = - (2 ^ 31)"

definition INT_MAX :: int where
  "INT_MAX = 2 ^ 31 - 1"

text \<open>
  \<^verbatim>\<open>int(x)\<close> for the result \<open>v\<close> of a division: the fractional part is discarded. Where
  the result is not an \<^verbatim>\<open>int\<close> the conversion is undefined in C++; the instruction
  \<^verbatim>\<open>cvttsd2si\<close> of the build returns \<^verbatim>\<open>INT_MIN\<close>, also for an infinity and a NaN.
\<close>

definition double_to_int :: "real option \<Rightarrow> int" where
  "double_to_int v =
     (case v of
        None \<Rightarrow> INT_MIN
      | Some x \<Rightarrow>
          let t = (if 0 \<le> x then \<lfloor>x\<rfloor> else \<lceil>x\<rceil>) in
          if INT_MIN \<le> t \<and> t \<le> INT_MAX then t else INT_MIN)"

text \<open>
  \<^verbatim>\<open>a + b\<close> on two \<^verbatim>\<open>int\<close>s. Where the sum is not an \<^verbatim>\<open>int\<close> the addition is undefined
  in C++; the model gives the result of the 32-bit addition of the build, which wraps
  around.
\<close>

definition int_add :: "int \<Rightarrow> int \<Rightarrow> int" where
  "int_add a b = (a + b + 2 ^ 31) mod 2 ^ 32 - 2 ^ 31"

subsection \<open>Poses\<close>

text \<open>
  The operations of Eigen that the generators use on \<^verbatim>\<open>Isometry3d\<close>:
  \<^verbatim>\<open>a * b\<close>, \<^verbatim>\<open>a.inverse()\<close>, \<^verbatim>\<open>(b.translation() - a.translation()).norm()\<close> and
  \<^verbatim>\<open>Quaterniond(a.linear()).angularDistance(Quaterniond(b.linear()))\<close>.
\<close>

record 'p Isometry3d_ops =
  compose :: "'p \<Rightarrow> 'p \<Rightarrow> 'p"
  inverse_of :: "'p \<Rightarrow> 'p"
  translation_norm :: "'p \<Rightarrow> 'p \<Rightarrow> real"
  angularDistance :: "'p \<Rightarrow> 'p \<Rightarrow> real"

text \<open>
  Modelled from the spec: \<^verbatim>\<open>interpolate(start, stop, steps)\<close> of
  \<^verbatim>\<open>tesseract_motion_planners/core/utils.h\<close> is not among the sources. The spec
  describes a sequence of joint vectors linearly spaced between the two endpoints over
  the step count, of which the generators re-emit all but the start: \<open>steps + 1\<close>
  columns, column \<open>i\<close> at the fraction \<open>i / steps\<close> of the way.
\<close>

definition interpolate :: "VectorXd \<Rightarrow> VectorXd \<Rightarrow> int \<Rightarrow> VectorXd list" where
  "interpolate start stop steps =
     map (\<lambda>i. map2 (\<lambda>a b. a + (b - a) * (real i / real_of_int steps)) start stop)
       [0..<nat (steps + 1)]"

subsection \<open>The command language\<close>

text \<open>
  Modelled from the spec: the classes of the command language (waypoints, plan, move and
  composite instructions, manipulator information) are declared in headers that are not
  among the sources. The types below follow the data model of the spec and keep the
  members that the two source files read or call.
\<close>

datatype MoveInstructionType = LINEAR | FREESPACE | START

text \<open>
  Modelled from the spec: the declaration of \<^verbatim>\<open>PlanInstructionType\<close> is not among the
  sources; the spec gives a plan instruction the motion-type tags start, linear and
  freespace.
\<close>

datatype PlanInstructionType = PLAN_LINEAR | PLAN_FREESPACE | PLAN_START

datatype CompositeInstructionOrder = ORDERED | UNORDERED | ORDERED_AND_REVERABLE

record 'p ManipulatorInfo =
  manipulator :: string
  manipulator_ik_solver :: string
  tcp :: "'p option"

text \<open>
  Modelled from the spec: \<^verbatim>\<open>ManipulatorInfo::getCombined\<close> is not among the sources; a
  field of the override that is set replaces the field of the parent, an empty one
  inherits it.
\<close>

definition getCombined :: "'p ManipulatorInfo \<Rightarrow> 'p ManipulatorInfo \<Rightarrow> 'p ManipulatorInfo" where
  "getCombined parent override =
     \<lparr> manipulator = (if manipulator override = [] then manipulator parent
                      else manipulator override),
       manipulator_ik_solver =
         (if manipulator_ik_solver override = [] then manipulator_ik_solver parent
          else manipulator_ik_solver override),
       tcp = (case tcp override of None \<Rightarrow> tcp parent | Some t \<Rightarrow> Some t) \<rparr>"

text \<open>
  A waypoint is a type-erased value: a cartesian, a joint or a state waypoint, or
  something else, of which \<^verbatim>\<open>NullWaypoint\<close> is the one the planner itself creates.
\<close>

datatype 'p Waypoint =
    NullWaypoint
  | CartesianWaypoint (cart_pose: 'p)
  | JointWaypoint (joint_names: "string list") (joint_position: VectorXd)
  | StateWaypoint (state_joint_names: "string list") (state_position: VectorXd)

fun isCartesianWaypoint :: "'p Waypoint \<Rightarrow> bool" where
  "isCartesianWaypoint (CartesianWaypoint _) = True"
| "isCartesianWaypoint _ = False"

fun isJointWaypoint :: "'p Waypoint \<Rightarrow> bool" where
  "isJointWaypoint (JointWaypoint _ _) = True"
| "isJointWaypoint _ = False"

fun isStateWaypoint :: "'p Waypoint \<Rightarrow> bool" where
  "isStateWaypoint (StateWaypoint _ _) = True"
| "isStateWaypoint _ = False"

record 'p PlanInstruction =
  plan_waypoint :: "'p Waypoint"
  plan_type :: PlanInstructionType
  plan_profile :: string
  plan_manipulator_info :: "'p ManipulatorInfo"
  plan_description :: string

definition isLinear :: "'p PlanInstruction \<Rightarrow> bool" where
  "isLinear p = (plan_type p = PLAN_LINEAR)"

definition isFreespace :: "'p PlanInstruction \<Rightarrow> bool" where
  "isFreespace p = (plan_type p = PLAN_FREESPACE)"

definition isStart :: "'p PlanInstruction \<Rightarrow> bool" where
  "isStart p = (plan_type p = PLAN_START)"

record 'p MoveInstruction =
  move_waypoint :: "'p Waypoint"
  move_type :: MoveInstructionType
  move_profile :: string
  move_manipulator_info :: "'p ManipulatorInfo"
  move_description :: string

text \<open>
  Modelled from the spec: the constructor \<^verbatim>\<open>MoveInstruction(waypoint, type)\<close> is not
  among the sources. It is taken to leave the profile at the default key and the
  manipulator information and the description empty; the generators overwrite all three.
\<close>

definition MoveInstruction_ctor ::
  "'p Waypoint \<Rightarrow> MoveInstructionType \<Rightarrow> 'p MoveInstruction" where
  "MoveInstruction_ctor w t =
     \<lparr> move_waypoint = w, move_type = t, move_profile = ''DEFAULT'',
       move_manipulator_info = \<lparr> manipulator = [], manipulator_ik_solver = [], tcp = None \<rparr>,
       move_description = [] \<rparr>"

datatype 'p Instruction =
    NullInstruction
  | PlanI "'p PlanInstruction"
  | MoveI "'p MoveInstruction"
  | CompositeI "'p CompositeInstruction"
and 'p CompositeInstruction =
    Composite (getProfile: string) (getOrder: CompositeInstructionOrder)
      (getManipulatorInfo: "'p ManipulatorInfo")
      (composite_getStartInstruction: "'p Instruction")
      (container: "'p Instruction list")

text \<open>
  Modelled from the spec: the default constructor of \<^verbatim>\<open>CompositeInstruction\<close> and its
  members \<^verbatim>\<open>push_back\<close>, \<^verbatim>\<open>setStartInstruction\<close>, \<^verbatim>\<open>hasStartInstruction\<close> and \<^verbatim>\<open>empty\<close>
  are not among the sources. A composite is an ordered sequence with a profile, an
  ordering policy, manipulator information and a start instruction, which is the null
  instruction when there is none.
\<close>

definition CompositeInstruction_default :: "'p CompositeInstruction" where
  "CompositeInstruction_default =
     Composite ''DEFAULT'' ORDERED
       \<lparr> manipulator = [], manipulator_ik_solver = [], tcp = None \<rparr> NullInstruction []"

fun push_back :: "'p CompositeInstruction \<Rightarrow> 'p Instruction \<Rightarrow> 'p CompositeInstruction" where
  "push_back (Composite pr ord mi st xs) x = Composite pr ord mi st (xs @ [x])"

fun setStartInstruction ::
  "'p CompositeInstruction \<Rightarrow> 'p Instruction \<Rightarrow> 'p CompositeInstruction" where
  "setStartInstruction (Composite pr ord mi st xs) s = Composite pr ord mi s xs"

definition hasStartInstruction :: "'p CompositeInstruction \<Rightarrow> bool" where
  "hasStartInstruction c = (composite_getStartInstruction c \<noteq> NullInstruction)"

definition empty_composite :: "'p CompositeInstruction \<Rightarrow> bool" where
  "empty_composite c = (container c = [])"

subsection \<open>Kinematics, environment and request\<close>

text \<open>
  The solvers, the environment and its state belong to the tesseract libraries, outside
  this repository; the planner sees them through the member functions below. A lookup of
  a solver by the name of a manipulator gives a null pointer for an unknown name. \<^verbatim>\<open>calcFwdKin\<close> and \<^verbatim>\<open>calcInvKin\<close> return
  a flag and fill an output argument: \<open>None\<close> is the flag \<^verbatim>\<open>false\<close>. The inverse solver
  writes all its solutions into one vector, \<open>numJoints\<close> entries each.
\<close>

record 'p ForwardKinematics =
  fwd_getJointNames :: "string list"
  fwd_getBaseLinkName :: string
  calcFwdKin :: "VectorXd \<Rightarrow> 'p option"

record 'p InverseKinematics =
  inv_getJointNames :: "string list"
  inv_getBaseLinkName :: string
  numJoints :: nat
  calcInvKin :: "'p \<Rightarrow> VectorXd \<Rightarrow> VectorXd option"

record 'p Environment =
  getFwdKinematicSolver :: "string \<Rightarrow> 'p ForwardKinematics option"
  getInvKinematicSolver :: "string \<Rightarrow> 'p InverseKinematics option"
  findTCP :: "'p ManipulatorInfo \<Rightarrow> exn + 'p"

record 'p EnvState =
  joints :: "string \<rightharpoonup> real"
  link_transforms :: "string \<rightharpoonup> 'p"

text \<open>
  \<^verbatim>\<open>EnvState::getJointValues(names)\<close> of the same libraries: the value of each name, in
  the order of the names, read with \<^verbatim>\<open>joints.at(name)\<close>, which throws for a name that
  is not a joint of the state.
\<close>

fun getJointValues :: "'p EnvState \<Rightarrow> string list \<Rightarrow> exn + VectorXd" where
  "getJointValues st [] = Inr []"
| "getJointValues st (n # ns) =
     bindE (at_key (joints st) n) (\<lambda>v.
     bindE (getJointValues st ns) (\<lambda>vs. Inr (v # vs)))"

text \<open>
  Modelled from the spec: request and response are declared in \<^verbatim>\<open>core/types.h\<close>, which is
  not among the sources. The request holds the environment (a pointer that may be null),
  the snapshot of its state and the instruction tree; the response holds the seed and the
  status. The three status codes are those of \<^verbatim>\<open>SimpleMotionPlannerStatusCategory\<close>.
\<close>

record 'p PlannerRequest =
  env :: "'p Environment option"
  env_state :: "'p EnvState option"
  instructions :: "'p CompositeInstruction"

datatype SimpleMotionPlannerStatus = SolutionFound | ErrorInvalidInput | FailedToFindValidSolution

record 'p PlannerResponse =
  results :: "'p CompositeInstruction"
  status :: "SimpleMotionPlannerStatus option"

subsection \<open>Pieces shared by the step generators\<close>

text \<open>\<^verbatim>\<open>int(dist / longest_valid_segment_length) + 1\<close>.\<close>

definition segment_steps :: "real \<Rightarrow> real \<Rightarrow> int" where
  "segment_steps distance longest_valid_segment_length =
     int_add (double_to_int (double_div distance longest_valid_segment_length)) 1"

text \<open>The test of \<^verbatim>\<open>calcFwdKin\<close> followed by the throw.\<close>

definition fwd_kin_or_throw :: "'p ForwardKinematics \<Rightarrow> VectorXd \<Rightarrow> exn + 'p" where
  "fwd_kin_or_throw fwd_kin j =
     (case calcFwdKin fwd_kin j of
        None \<Rightarrow> Inl (RuntimeError
          ''LVSInterpolateStateWaypoint: failed to find forward kinematics solution!'')
      | Some p \<Rightarrow> Inr p)"

text \<open>The move type taken from the base instruction.\<close>

definition lvs_move_type :: "'p PlanInstruction \<Rightarrow> exn + MoveInstructionType" where
  "lvs_move_type base_instruction =
     (if isLinear base_instruction then Inr LINEAR
      else if isFreespace base_instruction then Inr FREESPACE
      else Inl (RuntimeError ''LVS Interpolation: Unsupported Move Instruction Type!''))"

text \<open>
  One \<^verbatim>\<open>MoveInstruction\<close> of the output: the waypoint and the move type, then the
  manipulator information, the description and the profile of the base instruction.
\<close>

definition make_move ::
  "'p PlanInstruction \<Rightarrow> 'p Waypoint \<Rightarrow> MoveInstructionType \<Rightarrow> 'p Instruction" where
  "make_move base_instruction w t =
     MoveI ((MoveInstruction_ctor w t)
       \<lparr> move_profile := plan_profile base_instruction,
         move_manipulator_info := plan_manipulator_info base_instruction,
         move_description := plan_description base_instruction \<rparr>)"

text \<open>
  \<^verbatim>\<open>for (long i = 1; i < states.cols(); ++i)\<close>: a state waypoint for every column of the
  interpolation but the first.
\<close>

definition emit_states ::
  "'p PlanInstruction \<Rightarrow> string list \<Rightarrow> MoveInstructionType \<Rightarrow> VectorXd list
     \<Rightarrow> 'p CompositeInstruction" where
  "emit_states base_instruction names t states =
     foldl (\<lambda>composite i.
         push_back composite (make_move base_instruction (StateWaypoint names (states ! i)) t))
       CompositeInstruction_default [1..<length states]"

text \<open>
  \<^verbatim>\<open>StateWaypoint swp(names, j); for (long i = 1; i < steps; ++i)\<close>: the same state
  waypoint in every instruction.
\<close>

definition emit_repeated ::
  "'p PlanInstruction \<Rightarrow> string list \<Rightarrow> MoveInstructionType \<Rightarrow> VectorXd \<Rightarrow> int
     \<Rightarrow> 'p CompositeInstruction" where
  "emit_repeated base_instruction names t j steps =
     foldl (\<lambda>composite i.
         push_back composite (make_move base_instruction (StateWaypoint names j) t))
       CompositeInstruction_default [1..<nat steps]"

text \<open>
  The search for the closest solution: \<open>sols\<close> is the vector filled by \<^verbatim>\<open>calcInvKin\<close>,
  \<open>dof\<close> is \<^verbatim>\<open>numJoints()\<close>, and \<open>d\<close> is the distance the loop computes for a candidate.
  The loop state is the pair of \<^verbatim>\<open>dist\<close> (here \<open>best\<close>) and the chosen solution.
\<close>

definition closest_solution :: "(VectorXd \<Rightarrow> real) \<Rightarrow> VectorXd \<Rightarrow> nat \<Rightarrow> VectorXd" where
  "closest_solution d sols dof =
     snd (foldl (\<lambda>(best, final) i.
            let solution = middleRows sols (i * dof) dof in
            if d solution < best then (d solution, solution) else (best, final))
          (DBL_MAX, middleRows sols 0 dof) [0..<length sols div dof])"

text \<open>
  The search over both sets of solutions; the loop state is \<^verbatim>\<open>dist\<close> and the pair
  \<^verbatim>\<open>(j1_final, j2_final)\<close>.
\<close>

definition closest_pair :: "VectorXd \<Rightarrow> VectorXd \<Rightarrow> nat \<Rightarrow> VectorXd \<times> VectorXd" where
  "closest_pair j1 j2 dof =
     snd (foldl (\<lambda>acc i.
            let j1_solution = middleRows j1 (i * dof) dof in
            foldl (\<lambda>(best, final) j.
                let j2_solution = middleRows j2 (j * dof) dof;
                    d = norm_vec (vsub j2_solution j1_solution) in
                if d < best then (d, (j1_solution, j2_solution)) else (best, final))
              acc [0..<length j2 div dof])
          (DBL_MAX, (middleRows j1 0 dof, middleRows j2 0 dof)) [0..<length j1 div dof])"

text \<open>The error of a mismatch between the joint names of the two solvers.\<close>

definition check_joint_order ::
  "'p InverseKinematics \<Rightarrow> 'p ForwardKinematics \<Rightarrow> exn + unit" where
  "check_joint_order inv_kin fwd_kin =
     (if inv_getJointNames inv_kin \<noteq> fwd_getJointNames fwd_kin
      then Inl (RuntimeError
        ''Forward and Inverse Kinematic objects joints are not ordered the same!'')
      else Inr ())"

subsection \<open>The state-waypoint generators of lvs_interpolation.cpp\<close>

text \<open>Start and end are joint waypoints.\<close>

definition LVSInterpolateStateWaypoint_jj ::
  "'p Isometry3d_ops \<Rightarrow> string list \<times> VectorXd \<Rightarrow> string list \<times> VectorXd
     \<Rightarrow> 'p PlanInstruction \<Rightarrow> 'p PlannerRequest \<Rightarrow> 'p ManipulatorInfo
     \<Rightarrow> real \<Rightarrow> real \<Rightarrow> real \<Rightarrow> int \<Rightarrow> exn + 'p CompositeInstruction" where
  "LVSInterpolateStateWaypoint_jj G start end base_instruction request manip_info
       state_longest_valid_segment_length translation_longest_valid_segment_length
       rotation_longest_valid_segment_length min_steps =
     (let mi = getCombined manip_info (plan_manipulator_info base_instruction) in
      bindE (deref (env request)) (\<lambda>E.
      bindE (deref (getFwdKinematicSolver E (manipulator mi))) (\<lambda>fwd_kin.
      bindE (deref (env_state request)) (\<lambda>st.
      bindE (at_key (link_transforms st) (fwd_getBaseLinkName fwd_kin)) (\<lambda>world_to_base.
      bindE (findTCP E mi) (\<lambda>tcp.
      bindE (fwd_kin_or_throw fwd_kin (snd start)) (\<lambda>fk1.
      let p1 = compose G (compose G world_to_base fk1) tcp in
      bindE (fwd_kin_or_throw fwd_kin (snd end)) (\<lambda>fk2.
      let p2 = compose G (compose G world_to_base fk2) tcp;
          trans_dist = translation_norm G p1 p2;
          rot_dist = angularDistance G p1 p2;
          joint_dist = norm_vec (vsub (snd end) (snd start));
          trans_steps = segment_steps trans_dist translation_longest_valid_segment_length;
          rot_steps = segment_steps rot_dist rotation_longest_valid_segment_length;
          joint_steps = segment_steps joint_dist state_longest_valid_segment_length;
          steps = max (max (max trans_steps rot_steps) joint_steps) min_steps;
          states = interpolate (snd start) (snd end) steps in
      bindE (lvs_move_type base_instruction) (\<lambda>move_type.
      Inr (emit_states base_instruction (fwd_getJointNames fwd_kin) move_type
             states))))))))))"

text \<open>The start is a joint waypoint, the end a cartesian waypoint.\<close>

definition LVSInterpolateStateWaypoint_jc ::
  "'p Isometry3d_ops \<Rightarrow> string list \<times> VectorXd \<Rightarrow> 'p
     \<Rightarrow> 'p PlanInstruction \<Rightarrow> 'p PlannerRequest \<Rightarrow> 'p ManipulatorInfo
     \<Rightarrow> real \<Rightarrow> real \<Rightarrow> real \<Rightarrow> int \<Rightarrow> exn + 'p CompositeInstruction" where
  "LVSInterpolateStateWaypoint_jc G start end base_instruction request manip_info
       state_longest_valid_segment_length translation_longest_valid_segment_length
       rotation_longest_valid_segment_length min_steps =
     (let mi = getCombined manip_info (plan_manipulator_info base_instruction) in
      bindE (deref (env request)) (\<lambda>E.
      bindE (deref (getInvKinematicSolver E (manipulator mi))) (\<lambda>inv_kin.
      bindE (deref (getFwdKinematicSolver E (manipulator mi))) (\<lambda>fwd_kin.
      bindE (check_joint_order inv_kin fwd_kin) (\<lambda>_.
      bindE (deref (env_state request)) (\<lambda>st.
      bindE (at_key (link_transforms st) (inv_getBaseLinkName inv_kin)) (\<lambda>world_to_base.
      bindE (findTCP E mi) (\<lambda>tcp.
      let j1 = snd start;
          p2 = compose G (inverse_of G world_to_base) (compose G end (inverse_of G tcp)) in
      bindE (fwd_kin_or_throw fwd_kin j1) (\<lambda>p1.
      let trans_dist = translation_norm G p1 p2;
          rot_dist = angularDistance G p1 p2;
          trans_steps = segment_steps trans_dist translation_longest_valid_segment_length;
          rot_steps = segment_steps rot_dist rotation_longest_valid_segment_length;
          steps = max trans_steps rot_steps in
      case calcInvKin inv_kin p2 j1 of
        Some j2 \<Rightarrow>
          let j2_final = closest_solution (\<lambda>solution. norm_vec (vsub solution j1)) j2
                           (numJoints inv_kin);
              joint_dist = norm_vec (vsub j2_final j1);
              state_steps = segment_steps joint_dist state_longest_valid_segment_length;
              steps = max (max steps state_steps) min_steps in
          bindE (lvs_move_type base_instruction) (\<lambda>move_type.
          Inr (emit_states base_instruction (fwd_getJointNames fwd_kin) move_type
                 (interpolate j1 j2_final steps)))
      | None \<Rightarrow>
          let steps = max steps min_steps in
          bindE (lvs_move_type base_instruction) (\<lambda>move_type.
          Inr (emit_repeated base_instruction (fwd_getJointNames fwd_kin) move_type
                 j1 steps)))))))))))"

text \<open>The start is a cartesian waypoint, the end a joint waypoint.\<close>

definition LVSInterpolateStateWaypoint_cj ::
  "'p Isometry3d_ops \<Rightarrow> 'p \<Rightarrow> string list \<times> VectorXd
     \<Rightarrow> 'p PlanInstruction \<Rightarrow> 'p PlannerRequest \<Rightarrow> 'p ManipulatorInfo
     \<Rightarrow> real \<Rightarrow> real \<Rightarrow> real \<Rightarrow> int \<Rightarrow> exn + 'p CompositeInstruction" where
  "LVSInterpolateStateWaypoint_cj G start end base_instruction request manip_info
       state_longest_valid_segment_length translation_longest_valid_segment_length
       rotation_longest_valid_segment_length min_steps =
     (let mi = getCombined manip_info (plan_manipulator_info base_instruction) in
      bindE (deref (env request)) (\<lambda>E.
      bindE (deref (getInvKinematicSolver E (manipulator mi))) (\<lambda>inv_kin.
      bindE (deref (getFwdKinematicSolver E (manipulator mi))) (\<lambda>fwd_kin.
      bindE (check_joint_order inv_kin fwd_kin) (\<lambda>_.
      bindE (deref (env_state request)) (\<lambda>st.
      bindE (at_key (link_transforms st) (inv_getBaseLinkName inv_kin)) (\<lambda>world_to_base.
      bindE (findTCP E mi) (\<lambda>tcp.
      let p1 = compose G (inverse_of G world_to_base) (compose G start (inverse_of G tcp));
          j2 = snd end in
      bindE (fwd_kin_or_throw fwd_kin j2) (\<lambda>p2.
      let trans_dist = translation_norm G p1 p2;
          rot_dist = angularDistance G p1 p2;
          trans_steps = segment_steps trans_dist translation_longest_valid_segment_length;
          rot_steps = segment_steps rot_dist rotation_longest_valid_segment_length;
          steps = max trans_steps rot_steps in
      case calcInvKin inv_kin p1 j2 of
        Some j1 \<Rightarrow>
          let j1_final = closest_solution (\<lambda>solution. norm_vec (vsub solution j2)) j1
                           (numJoints inv_kin);
              joint_dist = norm_vec (vsub j1_final j2);
              state_steps = segment_steps joint_dist state_longest_valid_segment_length;
              steps = max (max steps state_steps) min_steps in
          bindE (lvs_move_type base_instruction) (\<lambda>move_type.
          Inr (emit_states base_instruction (fwd_getJointNames fwd_kin) move_type
                 (interpolate j1_final j2 steps)))
      | None \<Rightarrow>
          let steps = max steps min_steps in
          bindE (lvs_move_type base_instruction) (\<lambda>move_type.
          Inr (emit_repeated base_instruction (fwd_getJointNames fwd_kin) move_type
                 j2 steps)))))))))))"

text \<open>
  Start and end are cartesian waypoints. The seed of both inverse-kinematics calls is
  the current joint state of the environment.
\<close>

definition LVSInterpolateStateWaypoint_cc ::
  "'p Isometry3d_ops \<Rightarrow> 'p \<Rightarrow> 'p
     \<Rightarrow> 'p PlanInstruction \<Rightarrow> 'p PlannerRequest \<Rightarrow> 'p ManipulatorInfo
     \<Rightarrow> real \<Rightarrow> real \<Rightarrow> real \<Rightarrow> int \<Rightarrow> exn + 'p CompositeInstruction" where
  "LVSInterpolateStateWaypoint_cc G start end base_instruction request manip_info
       state_longest_valid_segment_length translation_longest_valid_segment_length
       rotation_longest_valid_segment_length min_steps =
     (let mi = getCombined manip_info (plan_manipulator_info base_instruction) in
      bindE (deref (env request)) (\<lambda>E.
      bindE (deref (getInvKinematicSolver E (manipulator mi))) (\<lambda>inv_kin.
      bindE (deref (getFwdKinematicSolver E (manipulator mi))) (\<lambda>fwd_kin.
      bindE (check_joint_order inv_kin fwd_kin) (\<lambda>_.
      bindE (deref (env_state request)) (\<lambda>st.
      bindE (at_key (link_transforms st) (inv_getBaseLinkName inv_kin)) (\<lambda>world_to_base.
      bindE (findTCP E mi) (\<lambda>tcp.
      bindE (getJointValues st (inv_getJointNames inv_kin)) (\<lambda>seed.
      let p1 = compose G (inverse_of G world_to_base) (compose G start (inverse_of G tcp));
          found_j1 = calcInvKin inv_kin p1 seed;
          p2 = compose G (inverse_of G world_to_base) (compose G end (inverse_of G tcp));
          found_j2 = calcInvKin inv_kin p2 seed;
          trans_dist = translation_norm G p1 p2;
          rot_dist = angularDistance G p1 p2;
          trans_steps = segment_steps trans_dist translation_longest_valid_segment_length;
          rot_steps = segment_steps rot_dist rotation_longest_valid_segment_length;
          steps = max trans_steps rot_steps;
          dof = numJoints inv_kin in
      case (found_j1, found_j2) of
        (Some j1, Some j2) \<Rightarrow>
          let (j1_final, j2_final) = closest_pair j1 j2 dof;
              joint_dist = norm_vec (vsub j1_final j2_final);
              state_steps = segment_steps joint_dist state_longest_valid_segment_length;
              steps = max (max steps state_steps) min_steps in
          bindE (lvs_move_type base_instruction) (\<lambda>move_type.
          Inr (emit_states base_instruction (inv_getJointNames inv_kin) move_type
                 (interpolate j1_final j2_final steps)))
      | (Some j1, None) \<Rightarrow>
          let j1_final = closest_solution
                           (\<lambda>j1_solution. norm_vec (vsub seed j1_solution)) j1 dof;
              steps = max steps min_steps in
          bindE (lvs_move_type base_instruction) (\<lambda>move_type.
          Inr (emit_repeated base_instruction (inv_getJointNames inv_kin) move_type
                 j1_final steps))
      | (None, Some j2) \<Rightarrow>
          let j2_final = closest_solution
                           (\<lambda>j2_solution. norm_vec (vsub seed j2_solution)) j2 dof;
              steps = max steps min_steps in
          bindE (lvs_move_type base_instruction) (\<lambda>move_type.
          Inr (emit_repeated base_instruction (inv_getJointNames inv_kin) move_type
                 j2_final steps))
      | (None, None) \<Rightarrow>
          let steps = max steps min_steps in
          bindE (lvs_move_type base_instruction) (\<lambda>move_type.
          Inr (emit_repeated base_instruction (inv_getJointNames inv_kin) move_type
                 seed steps)))))))))))"

subsection \<open>The cartesian-state generators of lvs_interpolation.cpp\<close>

text \<open>
  Each of the four functions starts with a \<^verbatim>\<open>throw\<close>; the statements after it are kept
  as the continuation of that first statement. They interpolate between two poses with
  the pose overload of \<^verbatim>\<open>interpolate\<close>, which is a parameter here, and emit one
  cartesian waypoint for every pose.
\<close>

definition throw_not_implemented :: "exn + unit" where
  "throw_not_implemented = Inl (RuntimeError ''Not implemented, PR's are welcome!'')"

definition fwd_kin_or_throw_cart :: "'p ForwardKinematics \<Rightarrow> VectorXd \<Rightarrow> exn + 'p" where
  "fwd_kin_or_throw_cart fwd_kin j =
     (case calcFwdKin fwd_kin j of
        None \<Rightarrow> Inl (RuntimeError
          ''fixedSizeLinearInterpolation: failed to find forward kinematics solution!'')
      | Some p \<Rightarrow> Inr p)"

definition emit_poses :: "'p PlanInstruction \<Rightarrow> 'p list \<Rightarrow> 'p CompositeInstruction" where
  "emit_poses base_instruction poses =
     foldl (\<lambda>composite pose.
         push_back composite (make_move base_instruction (CartesianWaypoint pose) LINEAR))
       CompositeInstruction_default poses"

definition cart_steps :: "'p Isometry3d_ops \<Rightarrow> 'p \<Rightarrow> 'p \<Rightarrow> real \<Rightarrow> real \<Rightarrow> int \<Rightarrow> int" where
  "cart_steps G p1 p2 translation_longest_valid_segment_length
       rotation_longest_valid_segment_length min_steps =
     (let trans_dist = translation_norm G p1 p2;
          rot_dist = angularDistance G p1 p2;
          trans_steps = segment_steps trans_dist translation_longest_valid_segment_length;
          rot_steps = segment_steps rot_dist rotation_longest_valid_segment_length
      in max (max trans_steps rot_steps) min_steps)"

definition LVSInterpolateCartStateWaypoint_jj ::
  "'p Isometry3d_ops \<Rightarrow> ('p \<Rightarrow> 'p \<Rightarrow> int \<Rightarrow> 'p list)
     \<Rightarrow> string list \<times> VectorXd \<Rightarrow> string list \<times> VectorXd
     \<Rightarrow> 'p PlanInstruction \<Rightarrow> 'p PlannerRequest \<Rightarrow> 'p ManipulatorInfo
     \<Rightarrow> real \<Rightarrow> real \<Rightarrow> real \<Rightarrow> int \<Rightarrow> exn + 'p CompositeInstruction" where
  "LVSInterpolateCartStateWaypoint_jj G interpolate_pose start end base_instruction request
       manip_info state_longest_valid_segment_length
       translation_longest_valid_segment_length rotation_longest_valid_segment_length
       min_steps =
     bindE throw_not_implemented (\<lambda>_.
     let mi = getCombined manip_info (plan_manipulator_info base_instruction) in
     bindE (deref (env request)) (\<lambda>E.
     bindE (deref (getFwdKinematicSolver E (manipulator mi))) (\<lambda>fwd_kin.
     bindE (deref (env_state request)) (\<lambda>st.
     bindE (at_key (link_transforms st) (fwd_getBaseLinkName fwd_kin)) (\<lambda>world_to_base.
     bindE (findTCP E mi) (\<lambda>tcp.
     bindE (fwd_kin_or_throw_cart fwd_kin (snd start)) (\<lambda>fk1.
     let p1 = compose G (compose G world_to_base fk1) tcp in
     bindE (fwd_kin_or_throw_cart fwd_kin (snd end)) (\<lambda>fk2.
     let p2 = compose G (compose G world_to_base fk2) tcp;
         steps = cart_steps G p1 p2 translation_longest_valid_segment_length
                   rotation_longest_valid_segment_length min_steps in
     Inr (emit_poses base_instruction (interpolate_pose p1 p2 steps))))))))))"

definition LVSInterpolateCartStateWaypoint_jc ::
  "'p Isometry3d_ops \<Rightarrow> ('p \<Rightarrow> 'p \<Rightarrow> int \<Rightarrow> 'p list)
     \<Rightarrow> string list \<times> VectorXd \<Rightarrow> 'p
     \<Rightarrow> 'p PlanInstruction \<Rightarrow> 'p PlannerRequest \<Rightarrow> 'p ManipulatorInfo
     \<Rightarrow> real \<Rightarrow> real \<Rightarrow> real \<Rightarrow> int \<Rightarrow> exn + 'p CompositeInstruction" where
  "LVSInterpolateCartStateWaypoint_jc G interpolate_pose start end base_instruction request
       manip_info state_longest_valid_segment_length
       translation_longest_valid_segment_length rotation_longest_valid_segment_length
       min_steps =
     bindE throw_not_implemented (\<lambda>_.
     let mi = getCombined manip_info (plan_manipulator_info base_instruction) in
     bindE (deref (env request)) (\<lambda>E.
     bindE (deref (getFwdKinematicSolver E (manipulator mi))) (\<lambda>fwd_kin.
     bindE (deref (env_state request)) (\<lambda>st.
     bindE (at_key (link_transforms st) (fwd_getBaseLinkName fwd_kin)) (\<lambda>world_to_base.
     bindE (findTCP E mi) (\<lambda>tcp.
     bindE (fwd_kin_or_throw_cart fwd_kin (snd start)) (\<lambda>fk1.
     let p1 = compose G (compose G world_to_base fk1) tcp;
         p2 = end;
         steps = cart_steps G p1 p2 translation_longest_valid_segment_length
                   rotation_longest_valid_segment_length min_steps in
     Inr (emit_poses base_instruction (interpolate_pose p1 p2 steps)))))))))"

definition LVSInterpolateCartStateWaypoint_cj ::
  "'p Isometry3d_ops \<Rightarrow> ('p \<Rightarrow> 'p \<Rightarrow> int \<Rightarrow> 'p list)
     \<Rightarrow> 'p \<Rightarrow> string list \<times> VectorXd
     \<Rightarrow> 'p PlanInstruction \<Rightarrow> 'p PlannerRequest \<Rightarrow> 'p ManipulatorInfo
     \<Rightarrow> real \<Rightarrow> real \<Rightarrow> real \<Rightarrow> int \<Rightarrow> exn + 'p CompositeInstruction" where
  "LVSInterpolateCartStateWaypoint_cj G interpolate_pose start end base_instruction request
       manip_info state_longest_valid_segment_length
       translation_longest_valid_segment_length rotation_longest_valid_segment_length
       min_steps =
     bindE throw_not_implemented (\<lambda>_.
     let mi = getCombined manip_info (plan_manipulator_info base_instruction) in
     bindE (deref (env request)) (\<lambda>E.
     bindE (deref (getFwdKinematicSolver E (manipulator mi))) (\<lambda>fwd_kin.
     bindE (deref (env_state request)) (\<lambda>st.
     bindE (at_key (link_transforms st) (fwd_getBaseLinkName fwd_kin)) (\<lambda>world_to_base.
     bindE (findTCP E mi) (\<lambda>tcp.
     let p1 = start in
     bindE (fwd_kin_or_throw_cart fwd_kin (snd end)) (\<lambda>fk2.
     let p2 = compose G (compose G world_to_base fk2) tcp;
         steps = cart_steps G p1 p2 translation_longest_valid_segment_length
                   rotation_longest_valid_segment_length min_steps in
     Inr (emit_poses base_instruction (interpolate_pose p1 p2 steps)))))))))"

definition LVSInterpolateCartStateWaypoint_cc ::
  "'p Isometry3d_ops \<Rightarrow> ('p \<Rightarrow> 'p \<Rightarrow> int \<Rightarrow> 'p list)
     \<Rightarrow> 'p \<Rightarrow> 'p
     \<Rightarrow> 'p PlanInstruction \<Rightarrow> 'p PlannerRequest \<Rightarrow> 'p ManipulatorInfo
     \<Rightarrow> real \<Rightarrow> real \<Rightarrow> real \<Rightarrow> int \<Rightarrow> exn + 'p CompositeInstruction" where
  "LVSInterpolateCartStateWaypoint_cc G interpolate_pose start end base_instruction request
       manip_info state_longest_valid_segment_length
       translation_longest_valid_segment_length rotation_longest_valid_segment_length
       min_steps =
     bindE throw_not_implemented (\<lambda>_.
     let steps = cart_steps G start end translation_longest_valid_segment_length
                   rotation_longest_valid_segment_length min_steps in
     Inr (emit_poses base_instruction (interpolate_pose start end steps)))"

subsection \<open>Profiles and the planner\<close>

text \<open>
  Modelled from the spec: the class \<^verbatim>\<open>SimplePlannerPlanProfile\<close> is not among the sources.
  A profile holds one step generator for each pair of endpoint kinds (joint or
  cartesian) and each motion type; these are the eight members that the dispatch calls.
  A joint waypoint is passed as the pair of its names and its positions.
\<close>

record 'p SimplePlannerPlanProfile =
  joint_joint_freespace ::
    "string list \<times> VectorXd \<Rightarrow> string list \<times> VectorXd \<Rightarrow> 'p PlanInstruction
       \<Rightarrow> 'p PlannerRequest \<Rightarrow> 'p ManipulatorInfo \<Rightarrow> exn + 'p CompositeInstruction"
  joint_cart_freespace ::
    "string list \<times> VectorXd \<Rightarrow> 'p \<Rightarrow> 'p PlanInstruction
       \<Rightarrow> 'p PlannerRequest \<Rightarrow> 'p ManipulatorInfo \<Rightarrow> exn + 'p CompositeInstruction"
  cart_joint_freespace ::
    "'p \<Rightarrow> string list \<times> VectorXd \<Rightarrow> 'p PlanInstruction
       \<Rightarrow> 'p PlannerRequest \<Rightarrow> 'p ManipulatorInfo \<Rightarrow> exn + 'p CompositeInstruction"
  cart_cart_freespace ::
    "'p \<Rightarrow> 'p \<Rightarrow> 'p PlanInstruction
       \<Rightarrow> 'p PlannerRequest \<Rightarrow> 'p ManipulatorInfo \<Rightarrow> exn + 'p CompositeInstruction"
  joint_joint_linear ::
    "string list \<times> VectorXd \<Rightarrow> string list \<times> VectorXd \<Rightarrow> 'p PlanInstruction
       \<Rightarrow> 'p PlannerRequest \<Rightarrow> 'p ManipulatorInfo \<Rightarrow> exn + 'p CompositeInstruction"
  joint_cart_linear ::
    "string list \<times> VectorXd \<Rightarrow> 'p \<Rightarrow> 'p PlanInstruction
       \<Rightarrow> 'p PlannerRequest \<Rightarrow> 'p ManipulatorInfo \<Rightarrow> exn + 'p CompositeInstruction"
  cart_joint_linear ::
    "'p \<Rightarrow> string list \<times> VectorXd \<Rightarrow> 'p PlanInstruction
       \<Rightarrow> 'p PlannerRequest \<Rightarrow> 'p ManipulatorInfo \<Rightarrow> exn + 'p CompositeInstruction"
  cart_cart_linear ::
    "'p \<Rightarrow> 'p \<Rightarrow> 'p PlanInstruction
       \<Rightarrow> 'p PlannerRequest \<Rightarrow> 'p ManipulatorInfo \<Rightarrow> exn + 'p CompositeInstruction"

text \<open>
  Modelled from the spec: \<^verbatim>\<open>getProfileString\<close> and \<^verbatim>\<open>getProfile\<close> of \<^verbatim>\<open>planner_utils.h\<close>
  are not among the sources. The field \<open>find_profile\<close> of the planner stands for their
  composition on the profiles registered with the planner and the remapping table of
  the request: it gives the profile for the profile name of a plan instruction, \<open>None\<close>
  for a null pointer.
\<close>

record 'p SimpleMotionPlanner =
  name_ :: string
  find_profile :: "string \<Rightarrow> 'p SimplePlannerPlanProfile option"

text \<open>
  A call of a step generator of the profile. An exception that leaves the generator is
  marked, so that the \<^verbatim>\<open>throw\<close> statements of the planner stay distinguishable from
  those of a generator; \<^verbatim>\<open>solve\<close> treats both alike.
\<close>

definition in_profile :: "exn + 'a \<Rightarrow> exn + 'a" where
  "in_profile r = (case r of Inl e \<Rightarrow> Inl (InProfile e) | Inr x \<Rightarrow> Inr x)"

text \<open>
  What \<^verbatim>\<open>catch (std::exception& e)\<close> catches: every exception, but not undefined
  behaviour.
\<close>

fun is_std_exception :: "exn \<Rightarrow> bool" where
  "is_std_exception (RuntimeError _) = True"
| "is_std_exception OutOfRange = True"
| "is_std_exception UndefinedBehaviour = False"
| "is_std_exception (InProfile e) = is_std_exception e"

subsection \<open>simple_motion_planner.cpp\<close>

definition checkUserInput :: "'p PlannerRequest \<Rightarrow> bool" where
  "checkUserInput request =
     (if env request = None then False
      else if empty_composite (instructions request) then False
      else True)"

text \<open>The state waypoint read from the current state of the environment.\<close>

definition current_state_waypoint ::
  "'p EnvState option \<Rightarrow> 'p ForwardKinematics option \<Rightarrow> exn + 'p Waypoint" where
  "current_state_waypoint current_state fwd_kin =
     bindE (deref fwd_kin) (\<lambda>fk.
     bindE (deref current_state) (\<lambda>st.
     bindE (getJointValues st (fwd_getJointNames fk)) (\<lambda>values.
     Inr (StateWaypoint (fwd_getJointNames fk) values))))"

definition getStartInstruction ::
  "'p PlannerRequest \<Rightarrow> 'p EnvState option \<Rightarrow> 'p ForwardKinematics option
     \<Rightarrow> exn + 'p MoveInstruction" where
  "getStartInstruction request current_state fwd_kin =
     (let start_instruction_seed = MoveInstruction_ctor NullWaypoint START in
      if hasStartInstruction (instructions request) then
        (case composite_getStartInstruction (instructions request) of
           PlanI start_instruction \<Rightarrow>
             let start_waypoint = plan_waypoint start_instruction in
             bindE
               (if isJointWaypoint start_waypoint then
                  Inr (start_instruction_seed
                    \<lparr> move_waypoint := StateWaypoint (joint_names start_waypoint)
                        (joint_position start_waypoint) \<rparr>)
                else if isCartesianWaypoint start_waypoint then
                  bindE (current_state_waypoint current_state fwd_kin) (\<lambda>temp.
                  Inr (start_instruction_seed \<lparr> move_waypoint := temp \<rparr>))
                else if isStateWaypoint start_waypoint then
                  Inr (start_instruction_seed \<lparr> move_waypoint := start_waypoint \<rparr>)
                else Inl (RuntimeError ''Unsupported waypoint type!''))
               (\<lambda>seed. Inr (seed
                  \<lparr> move_manipulator_info := plan_manipulator_info start_instruction \<rparr>))
         | _ \<Rightarrow> Inl UndefinedBehaviour)
      else
        bindE (current_state_waypoint current_state fwd_kin) (\<lambda>temp.
        Inr (start_instruction_seed \<lparr> move_waypoint := temp \<rparr>)))"

definition unsupported_waypoints :: exn where
  "unsupported_waypoints = RuntimeError
     ''SimpleMotionPlanner::processCompositeInstruction: Unsupported waypoints provided!''"

text \<open>The arm \<^verbatim>\<open>if (plan_instruction->isLinear())\<close> of the dispatch.\<close>

definition dispatch_linear ::
  "'p SimplePlannerPlanProfile \<Rightarrow> 'p Waypoint \<Rightarrow> 'p PlanInstruction \<Rightarrow> 'p PlannerRequest
     \<Rightarrow> exn + 'p CompositeInstruction" where
  "dispatch_linear profile start_waypoint plan_instruction request =
     (let is_cwp1 = isCartesianWaypoint start_waypoint;
          is_jwp1 = isJointWaypoint start_waypoint;
          is_swp1 = isStateWaypoint start_waypoint;
          cur = plan_waypoint plan_instruction;
          is_cwp2 = isCartesianWaypoint cur;
          is_jwp2 = isJointWaypoint cur;
          is_swp2 = isStateWaypoint cur;
          mi = getManipulatorInfo (instructions request) in
      if is_cwp1 \<and> is_cwp2 then
        in_profile (cart_cart_linear profile (cart_pose start_waypoint) (cart_pose cur)
          plan_instruction request mi)
      else if is_cwp1 \<and> is_jwp2 then
        in_profile (cart_joint_linear profile (cart_pose start_waypoint)
          (joint_names cur, joint_position cur) plan_instruction request mi)
      else if is_jwp1 \<and> is_cwp2 then
        in_profile (joint_cart_linear profile
          (joint_names start_waypoint, joint_position start_waypoint) (cart_pose cur)
          plan_instruction request mi)
      else if is_jwp1 \<and> is_jwp2 then
        in_profile (joint_joint_linear profile
          (joint_names start_waypoint, joint_position start_waypoint)
          (joint_names cur, joint_position cur) plan_instruction request mi)
      else if is_swp1 \<and> is_cwp2 then
        in_profile (joint_cart_linear profile
          (state_joint_names start_waypoint, state_position start_waypoint) (cart_pose cur)
          plan_instruction request mi)
      else if is_swp1 \<and> is_jwp2 then
        in_profile (joint_joint_linear profile
          (state_joint_names start_waypoint, state_position start_waypoint)
          (joint_names cur, joint_position cur) plan_instruction request mi)
      else if is_cwp1 \<and> is_swp2 then
        in_profile (cart_joint_linear profile (cart_pose start_waypoint)
          (state_joint_names cur, state_position cur) plan_instruction request mi)
      else if is_jwp1 \<and> is_swp2 then
        in_profile (joint_joint_linear profile
          (joint_names start_waypoint, joint_position start_waypoint)
          (state_joint_names cur, state_position cur) plan_instruction request mi)
      else if is_swp1 \<and> is_swp2 then
        in_profile (joint_joint_linear profile
          (state_joint_names start_waypoint, state_position start_waypoint)
          (state_joint_names cur, state_position cur) plan_instruction request mi)
      else Inl unsupported_waypoints)"

text \<open>The arm \<^verbatim>\<open>else if (plan_instruction->isFreespace())\<close> of the dispatch.\<close>

definition dispatch_freespace ::
  "'p SimplePlannerPlanProfile \<Rightarrow> 'p Waypoint \<Rightarrow> 'p PlanInstruction \<Rightarrow> 'p PlannerRequest
     \<Rightarrow> exn + 'p CompositeInstruction" where
  "dispatch_freespace profile start_waypoint plan_instruction request =
     (let is_cwp1 = isCartesianWaypoint start_waypoint;
          is_jwp1 = isJointWaypoint start_waypoint;
          is_swp1 = isStateWaypoint start_waypoint;
          cur = plan_waypoint plan_instruction;
          is_cwp2 = isCartesianWaypoint cur;
          is_jwp2 = isJointWaypoint cur;
          is_swp2 = isStateWaypoint cur;
          mi = getManipulatorInfo (instructions request) in
      if is_cwp1 \<and> is_cwp2 then
        in_profile (cart_cart_freespace profile (cart_pose start_waypoint) (cart_pose cur)
          plan_instruction request mi)
      else if is_cwp1 \<and> is_jwp2 then
        in_profile (cart_joint_freespace profile (cart_pose start_waypoint)
          (joint_names cur, joint_position cur) plan_instruction request mi)
      else if is_jwp1 \<and> is_cwp2 then
        in_profile (joint_cart_freespace profile
          (joint_names start_waypoint, joint_position start_waypoint) (cart_pose cur)
          plan_instruction request mi)
      else if is_jwp1 \<and> is_jwp2 then
        in_profile (joint_joint_freespace profile
          (joint_names start_waypoint, joint_position start_waypoint)
          (joint_names cur, joint_position cur) plan_instruction request mi)
      else if is_swp1 \<and> is_cwp2 then
        in_profile (joint_cart_freespace profile
          (state_joint_names start_waypoint, state_position start_waypoint) (cart_pose cur)
          plan_instruction request mi)
      else if is_swp1 \<and> is_jwp2 then
        in_profile (joint_joint_freespace profile
          (state_joint_names start_waypoint, state_position start_waypoint)
          (joint_names cur, joint_position cur) plan_instruction request mi)
      else if is_cwp1 \<and> is_swp2 then
        in_profile (cart_joint_freespace profile (cart_pose start_waypoint)
          (state_joint_names cur, state_position cur) plan_instruction request mi)
      else if is_jwp1 \<and> is_swp2 then
        in_profile (joint_joint_freespace profile
          (joint_names start_waypoint, joint_position start_waypoint)
          (state_joint_names cur, state_position cur) plan_instruction request mi)
      else if is_swp1 \<and> is_swp2 then
        in_profile (joint_joint_freespace profile
          (state_joint_names start_waypoint, state_position start_waypoint)
          (state_joint_names cur, state_position cur) plan_instruction request mi)
      else Inl unsupported_waypoints)"

text \<open>
  The body of the loop for a plan instruction: the profile is looked up, then the
  motion type selects the arm. The result is the composite \<^verbatim>\<open>step\<close> that the loop
  appends to the seed.
\<close>

definition process_plan_instruction ::
  "'p SimpleMotionPlanner \<Rightarrow> 'p Waypoint \<Rightarrow> 'p PlanInstruction \<Rightarrow> 'p PlannerRequest
     \<Rightarrow> exn + 'p CompositeInstruction" where
  "process_plan_instruction planner start_waypoint plan_instruction request =
     (case find_profile planner (plan_profile plan_instruction) of
        None \<Rightarrow> Inl (RuntimeError ''SimpleMotionPlanner: Invalid start profile'')
      | Some start_plan_profile \<Rightarrow>
          if isLinear plan_instruction then
            dispatch_linear start_plan_profile start_waypoint plan_instruction request
          else if isFreespace plan_instruction then
            dispatch_freespace start_plan_profile start_waypoint plan_instruction request
          else Inl (RuntimeError ''Unsupported!''))"

text \<open>
  The tree walk. \<^verbatim>\<open>start_waypoint\<close> is a reference that the walk updates, so the
  function returns the seed together with the waypoint it leaves behind.
  \<open>process_instructions\<close> is the \<^verbatim>\<open>for\<close> loop, with the seed built so far.
\<close>

fun processCompositeInstruction ::
  "'p SimpleMotionPlanner \<Rightarrow> 'p CompositeInstruction \<Rightarrow> 'p Waypoint \<Rightarrow> 'p PlannerRequest
     \<Rightarrow> exn + ('p CompositeInstruction \<times> 'p Waypoint)"
and process_instructions ::
  "'p SimpleMotionPlanner \<Rightarrow> 'p Instruction list \<Rightarrow> 'p CompositeInstruction \<Rightarrow> 'p Waypoint
     \<Rightarrow> 'p PlannerRequest \<Rightarrow> exn + ('p CompositeInstruction \<times> 'p Waypoint)" where
  "processCompositeInstruction planner (Composite pr ord mi st xs) start_waypoint request =
     process_instructions planner xs (Composite pr ord mi NullInstruction [])
       start_waypoint request"
| "process_instructions planner [] seed start_waypoint request = Inr (seed, start_waypoint)"
| "process_instructions planner (CompositeI c # xs) seed start_waypoint request =
     (case processCompositeInstruction planner c start_waypoint request of
        Inl e \<Rightarrow> Inl e
      | Inr (sub, w) \<Rightarrow>
          process_instructions planner xs (push_back seed (CompositeI sub)) w request)"
| "process_instructions planner (PlanI plan_instruction # xs) seed start_waypoint request =
     (case process_plan_instruction planner start_waypoint plan_instruction request of
        Inl e \<Rightarrow> Inl e
      | Inr step \<Rightarrow>
          process_instructions planner xs (push_back seed (CompositeI step))
            (plan_waypoint plan_instruction) request)"
| "process_instructions planner (instruction # xs) seed start_waypoint request =
     process_instructions planner xs (push_back seed instruction) start_waypoint request"

definition solve ::
  "'p SimpleMotionPlanner \<Rightarrow> 'p PlannerRequest \<Rightarrow> 'p PlannerResponse
     \<Rightarrow> exn + (SimpleMotionPlannerStatus \<times> 'p PlannerResponse)" where
  "solve planner request response =
     (if \<not> checkUserInput request then
        Inr (ErrorInvalidInput, response \<lparr> status := Some ErrorInvalidInput \<rparr>)
      else
        let manipulator = manipulator (getManipulatorInfo (instructions request)) in
        bindE (deref (env request)) (\<lambda>E.
        let current_state = env_state request;
            fwd_kin = getFwdKinematicSolver E manipulator in
        bindE (getStartInstruction request current_state fwd_kin) (\<lambda>start_instruction.
        let start_waypoint = move_waypoint start_instruction in
        case processCompositeInstruction planner (instructions request) start_waypoint
               request of
          Inl e \<Rightarrow>
            if is_std_exception e then
              Inr (ErrorInvalidInput, response \<lparr> status := Some ErrorInvalidInput \<rparr>)
            else Inl e
        | Inr (seed, _) \<Rightarrow>
            let seed = setStartInstruction seed (MoveI start_instruction);
                response = response \<lparr> results := seed \<rparr>;
                response = response \<lparr> status := Some SolutionFound \<rparr>
            in Inr (SolutionFound, response))))"

subsection \<open>A small environment for concrete runs\<close>

text \<open>
  A manipulator with one joint on a line: a pose is a real number, composition is
  addition, the translation distance is the absolute difference and there is no
  rotation. Forward kinematics maps the joint value to itself. Inverse kinematics fails
  for a negative pose and has the two solutions \<open>p + 3\<close> and \<open>p\<close> otherwise.
\<close>

definition ex_ops :: "real Isometry3d_ops" where
  "ex_ops = \<lparr> compose = (\<lambda>a b. a + b), inverse_of = (\<lambda>a. - a),
              translation_norm = (\<lambda>a b. \<bar>b - a\<bar>), angularDistance = (\<lambda>a b. 0) \<rparr>"

definition ex_fwd_kin :: "real ForwardKinematics" where
  "ex_fwd_kin = \<lparr> fwd_getJointNames = [''joint_1''], fwd_getBaseLinkName = ''base_link'',
                  calcFwdKin = (\<lambda>j. case j of [x] \<Rightarrow> Some x | _ \<Rightarrow> None) \<rparr>"

definition ex_inv_kin :: "real InverseKinematics" where
  "ex_inv_kin = \<lparr> inv_getJointNames = [''joint_1''], inv_getBaseLinkName = ''base_link'',
                  numJoints = 1,
                  calcInvKin = (\<lambda>p seed. if p < 0 then None else Some [p + 3, p]) \<rparr>"

definition ex_env :: "real Environment" where
  "ex_env = \<lparr> getFwdKinematicSolver = (\<lambda>name. Some ex_fwd_kin),
              getInvKinematicSolver = (\<lambda>name. Some ex_inv_kin),
              findTCP = (\<lambda>mi. Inr 0) \<rparr>"

definition ex_state :: "real EnvState" where
  "ex_state = \<lparr> joints = [''joint_1'' \<mapsto> 0], link_transforms = [''base_link'' \<mapsto> 0] \<rparr>"

definition ex_manip :: "real ManipulatorInfo" where
  "ex_manip = \<lparr> manipulator = ''manipulator'', manipulator_ik_solver = [], tcp = None \<rparr>"

definition ex_plan :: "real Waypoint \<Rightarrow> PlanInstructionType \<Rightarrow> real PlanInstruction" where
  "ex_plan w t = \<lparr> plan_waypoint = w, plan_type = t, plan_profile = ''DEFAULT'',
                   plan_manipulator_info = ex_manip, plan_description = ''segment'' \<rparr>"

definition ex_request :: "real CompositeInstruction \<Rightarrow> real PlannerRequest" where
  "ex_request c = \<lparr> env = Some ex_env, env_state = Some ex_state, instructions = c \<rparr>"

subsection \<open>A planner for concrete runs\<close>

text \<open>
  A profile that binds every slot to the state-waypoint generator for its pair of
  endpoint kinds, with all three segment lengths \<open>1\<close> and one step at least.
\<close>

definition ex_profile :: "real SimplePlannerPlanProfile" where
  "ex_profile =
     \<lparr> joint_joint_freespace = (\<lambda>s e b r m.
         LVSInterpolateStateWaypoint_jj ex_ops s e b r m 1 1 1 1),
       joint_cart_freespace = (\<lambda>s e b r m.
         LVSInterpolateStateWaypoint_jc ex_ops s e b r m 1 1 1 1),
       cart_joint_freespace = (\<lambda>s e b r m.
         LVSInterpolateStateWaypoint_cj ex_ops s e b r m 1 1 1 1),
       cart_cart_freespace = (\<lambda>s e b r m.
         LVSInterpolateStateWaypoint_cc ex_ops s e b r m 1 1 1 1),
       joint_joint_linear = (\<lambda>s e b r m.
         LVSInterpolateStateWaypoint_jj ex_ops s e b r m 1 1 1 1),
       joint_cart_linear = (\<lambda>s e b r m.
         LVSInterpolateStateWaypoint_jc ex_ops s e b r m 1 1 1 1),
       cart_joint_linear = (\<lambda>s e b r m.
         LVSInterpolateStateWaypoint_cj ex_ops s e b r m 1 1 1 1),
       cart_cart_linear = (\<lambda>s e b r m.
         LVSInterpolateStateWaypoint_cc ex_ops s e b r m 1 1 1 1) \<rparr>"

definition ex_planner :: "real SimpleMotionPlanner" where
  "ex_planner = \<lparr> name_ = ''SIMPLE_PLANNER'', find_profile = (\<lambda>name. Some ex_profile) \<rparr>"

definition ex_response :: "real PlannerResponse" where
  "ex_response = \<lparr> results = CompositeInstruction_default, status = None \<rparr>"

text \<open>A program whose start instruction carries a waypoint of no supported kind.\<close>

definition ex_null_start :: "real CompositeInstruction" where
  "ex_null_start =
     Composite ''DEFAULT'' ORDERED ex_manip (PlanI (ex_plan NullWaypoint PLAN_START))
       [PlanI (ex_plan (JointWaypoint [''joint_1''] [1 / 2]) PLAN_FREESPACE)]"

text \<open>A program without a start instruction: one freespace move to a joint target.\<close>

definition ex_program :: "real CompositeInstruction" where
  "ex_program =
     Composite ''DEFAULT'' ORDERED ex_manip NullInstruction
       [PlanI (ex_plan (JointWaypoint [''joint_1''] [2]) PLAN_FREESPACE)]"

text \<open>Programs with an explicit start instruction, cartesian and joint.\<close>

definition ex_cart_start :: "real CompositeInstruction" where
  "ex_cart_start =
     Composite ''DEFAULT'' ORDERED ex_manip (PlanI (ex_plan (CartesianWaypoint 5) PLAN_START))
       [PlanI (ex_plan (JointWaypoint [''joint_1''] [2]) PLAN_FREESPACE)]"

definition ex_joint_start :: "real CompositeInstruction" where
  "ex_joint_start =
     Composite ''DEFAULT'' ORDERED ex_manip
       (PlanI (ex_plan (JointWaypoint [''joint_1''] [7]) PLAN_START))
       [PlanI (ex_plan (JointWaypoint [''joint_1''] [2]) PLAN_FREESPACE)]"

subsection \<open>Predicates for the tree walk\<close>

text \<open>
  The condition of the two assertions of the dispatch: a waypoint is a cartesian, a joint
  or a state waypoint; and the same for the target of every plan instruction of a tree.
\<close>

definition supported_waypoint :: "'p Waypoint \<Rightarrow> bool" where
  "supported_waypoint w = (isCartesianWaypoint w \<or> isJointWaypoint w \<or> isStateWaypoint w)"

fun targets_supported :: "'p Instruction \<Rightarrow> bool"
and targets_supported_composite :: "'p CompositeInstruction \<Rightarrow> bool" where
  "targets_supported (PlanI p) = supported_waypoint (plan_waypoint p)"
| "targets_supported (CompositeI c) = targets_supported_composite c"
| "targets_supported NullInstruction = True"
| "targets_supported (MoveI m) = True"
| "targets_supported_composite (Composite pr ord mi st xs) = list_all targets_supported xs"


text \<open>A program with a nested composite, a move instruction and a null instruction.\<close>

definition ex_nested :: "real CompositeInstruction" where
  "ex_nested =
     Composite ''DEFAULT'' ORDERED ex_manip NullInstruction
       [PlanI (ex_plan (JointWaypoint [''joint_1''] [2]) PLAN_FREESPACE),
        CompositeI (Composite ''NESTED'' UNORDERED ex_manip NullInstruction
          [PlanI (ex_plan (StateWaypoint [''joint_1''] [2]) PLAN_LINEAR),
           MoveI (MoveInstruction_ctor NullWaypoint START)]),
        NullInstruction]"

subsection \<open>The solutions of an inverse-kinematics call\<close>

text \<open>
  The vector that \<^verbatim>\<open>calcInvKin\<close> fills, cut into the solutions that the search loops
  visit: \<^verbatim>\<open>size / dof\<close> blocks of \<open>dof\<close> entries.
\<close>

definition candidates :: "VectorXd \<Rightarrow> nat \<Rightarrow> VectorXd list" where
  "candidates sols dof = map (\<lambda>i. middleRows sols (i * dof) dof) [0..<length sols div dof]"

section \<open>Properties\<close>

lemmas ex_defs = ex_ops_def ex_fwd_kin_def ex_inv_kin_def ex_env_def ex_state_def ex_manip_def
  ex_plan_def ex_request_def

lemma ex_simps:
  "env (ex_request c) = Some ex_env"
  "env_state (ex_request c) = Some ex_state"
  "instructions (ex_request c) = c"
  "getFwdKinematicSolver ex_env name = Some ex_fwd_kin"
  "getInvKinematicSolver ex_env name = Some ex_inv_kin"
  "findTCP ex_env mi = Inr 0"
  "fwd_getJointNames ex_fwd_kin = [''joint_1'']"
  "fwd_getBaseLinkName ex_fwd_kin = ''base_link''"
  "calcFwdKin ex_fwd_kin [x] = Some x"
  "inv_getJointNames ex_inv_kin = [''joint_1'']"
  "inv_getBaseLinkName ex_inv_kin = ''base_link''"
  "numJoints ex_inv_kin = 1"
  "calcInvKin ex_inv_kin p seed = (if p < 0 then None else Some [p + 3, p])"
  "joints ex_state ''joint_1'' = Some 0"
  "link_transforms ex_state ''base_link'' = Some 0"
  "compose ex_ops a b = a + b"
  "inverse_of ex_ops a = - a"
  "translation_norm ex_ops a b = \<bar>b - a\<bar>"
  "angularDistance ex_ops a b = 0"
  "plan_waypoint (ex_plan w t) = w"
  "plan_type (ex_plan w t) = t"
  "plan_profile (ex_plan w t) = ''DEFAULT''"
  "plan_manipulator_info (ex_plan w t) = ex_manip"
  "getCombined ex_manip ex_manip = ex_manip"
  "find_profile ex_planner name = Some ex_profile"
  by (simp_all add: ex_defs getCombined_def ex_planner_def)

lemma ex_profile_simps:
  "joint_joint_freespace ex_profile s e b r m
     = LVSInterpolateStateWaypoint_jj ex_ops s e b r m 1 1 1 1"
  "joint_cart_freespace ex_profile s e' b r m
     = LVSInterpolateStateWaypoint_jc ex_ops s e' b r m 1 1 1 1"
  "cart_joint_freespace ex_profile s' e b r m
     = LVSInterpolateStateWaypoint_cj ex_ops s' e b r m 1 1 1 1"
  "cart_cart_freespace ex_profile s' e' b r m
     = LVSInterpolateStateWaypoint_cc ex_ops s' e' b r m 1 1 1 1"
  "joint_joint_linear ex_profile s e b r m
     = LVSInterpolateStateWaypoint_jj ex_ops s e b r m 1 1 1 1"
  "joint_cart_linear ex_profile s e' b r m
     = LVSInterpolateStateWaypoint_jc ex_ops s e' b r m 1 1 1 1"
  "cart_joint_linear ex_profile s' e b r m
     = LVSInterpolateStateWaypoint_cj ex_ops s' e b r m 1 1 1 1"
  "cart_cart_linear ex_profile s' e' b r m
     = LVSInterpolateStateWaypoint_cc ex_ops s' e' b r m 1 1 1 1"
  by (simp_all add: ex_profile_def)

subsection \<open>Exceptions and conversions\<close>

lemma bindE_Inl [simp]: "bindE (Inl e) f = Inl e"
  by (simp add: bindE_def)

lemma bindE_Inr [simp]: "bindE (Inr x) f = f x"
  by (simp add: bindE_def)

lemma bindE_eq_Inr: "bindE m f = Inr y \<longleftrightarrow> (\<exists>x. m = Inr x \<and> f x = Inr y)"
  by (cases m) simp_all

lemma deref_eq_Inr [simp]: "deref p = Inr x \<longleftrightarrow> p = Some x"
  by (cases p) (simp_all add: deref_def)

lemma deref_Some [simp]: "deref (Some x) = Inr x"
  by (simp add: deref_def)

lemma deref_None [simp]: "deref None = Inl UndefinedBehaviour"
  by (simp add: deref_def)

lemma at_key_eq_Inr [simp]: "at_key m k = Inr v \<longleftrightarrow> m k = Some v"
  by (cases "m k") (simp_all add: at_key_def)

lemma fwd_kin_or_throw_eq_Inr [simp]:
  "fwd_kin_or_throw fk j = Inr p \<longleftrightarrow> calcFwdKin fk j = Some p"
  by (cases "calcFwdKin fk j") (simp_all add: fwd_kin_or_throw_def)

lemma lvs_move_type_eq_Inr:
  "lvs_move_type b = Inr t \<longleftrightarrow>
     (isLinear b \<and> t = LINEAR) \<or> (\<not> isLinear b \<and> isFreespace b \<and> t = FREESPACE)"
  by (auto simp: lvs_move_type_def)

subsection \<open>Step counts\<close>


lemma powi_two_pos [simp]: "0 < (2::real) powi n"
  by (simp add: zero_less_power_int)

lemma round_half_even_bounds: "\<lfloor>x\<rfloor> \<le> round_half_even x \<and> round_half_even x \<le> \<lfloor>x\<rfloor> + 1"
  by (simp add: round_half_even_def Let_def)

lemma round_half_even_of_int [simp]: "round_half_even (of_int k) = k"
  by (simp add: round_half_even_def Let_def)

lemma round_half_even_mono:
  assumes "x \<le> y"
  shows "round_half_even x \<le> round_half_even y"
proof (cases "\<lfloor>x\<rfloor> = \<lfloor>y\<rfloor>")
  case True
  then show ?thesis
    using assms by (auto simp: round_half_even_def Let_def)
next
  case False
  with assms have "\<lfloor>x\<rfloor> + 1 \<le> \<lfloor>y\<rfloor>"
    using floor_mono [OF assms] by linarith
  then show ?thesis
    using round_half_even_bounds [of x] round_half_even_bounds [of y] by linarith
qed




lemma round_double_nonneg:
  assumes "0 \<le> x"
  shows "0 \<le> round_double x"
proof (cases "x = 0")
  case True
  then show ?thesis by (simp add: round_double_def)
next
  case False
  let ?e = "max (binary_exponent x - 52) (- 1074)"
  have "0 \<le> x / 2 powi ?e" using assms by simp
  then have "round_half_even 0 \<le> round_half_even (x / 2 powi ?e)"
    by (rule round_half_even_mono)
  then have "0 \<le> round_half_even (x / 2 powi ?e)"
    using round_half_even_of_int [of 0] by simp
  then show ?thesis
    using False by (simp add: round_double_def Let_def)
qed


lemma int_add_no_overflow:
  "INT_MIN \<le> a + b \<Longrightarrow> a + b \<le> INT_MAX \<Longrightarrow> int_add a b = a + b"
  by (simp add: int_add_def INT_MIN_def INT_MAX_def)

lemma segment_steps_in_range:
  assumes "0 \<le> d" "0 < l" "round_double (d / l) < 2 ^ 31 - 1"
  shows "segment_steps d l = \<lfloor>round_double (d / l)\<rfloor> + 1"
proof -
  let ?q = "round_double (d / l)"
  have q0: "0 \<le> ?q"
    using assms by (intro round_double_nonneg) simp
  have "?q < 2 ^ 1024"
    using assms(3) by (rule less_trans) simp
  then have div: "double_div d l = Some ?q"
    using assms(2) q0 by (simp add: double_div_def Let_def)
  have f0: "0 \<le> \<lfloor>?q\<rfloor>" using q0 by simp
  have "?q < of_int (2 ^ 31 - 1)" using assms(3) by simp
  then have f1: "\<lfloor>?q\<rfloor> < 2 ^ 31 - 1" by (simp only: floor_less_iff)
  have conv: "double_to_int (Some ?q) = \<lfloor>?q\<rfloor>"
    using q0 f0 f1 by (simp add: double_to_int_def INT_MIN_def INT_MAX_def)
  show ?thesis
    unfolding segment_steps_def div conv
    using f0 f1 by (intro int_add_no_overflow) (simp_all add: INT_MIN_def INT_MAX_def)
qed






text \<open>Rounded quotients and step counts of the examples.\<close>

lemma round_double_values:
  "round_double 0 = 0"
  "round_double (1 / 2) = 1 / 2"
  "round_double 1 = 1"
  "round_double (3 / 2) = 3 / 2"
  "round_double 2 = 2"
  "round_double 3 = 3"
  "round_double 4 = 4"
  "round_double (1 / 4) = 1 / 4"
  "round_double (3 / 4) = 3 / 4"
  "round_double 549755813888 = 549755813888"
  by code_simp+


lemma segment_steps_values:
  "segment_steps 0 1 = 1"
  "segment_steps (1 / 2) 1 = 1"
  "segment_steps 1 1 = 2"
  "segment_steps (3 / 2) 1 = 2"
  "segment_steps 2 1 = 3"
  "segment_steps 0 2 = 1"
  "segment_steps (1 / 2) 2 = 1"
  "segment_steps 1 2 = 1"
  "segment_steps (3 / 2) 2 = 1"
  "segment_steps 2 2 = 2"
  "segment_steps (1 / 2) (1 / 8) = 5"
  by (simp_all add: segment_steps_in_range round_double_values)




lemma norm_vec_single: "norm_vec [x] = \<bar>x\<bar>"
  by (simp add: norm_vec_def)

subsection \<open>What the emission loops append\<close>

lemma container_push_back [simp]: "container (push_back c x) = container c @ [x]"
  by (cases c) simp

lemma container_foldl_push_back:
  "container (foldl (\<lambda>c i. push_back c (f i)) c0 xs) = container c0 @ map f xs"
  by (induction xs arbitrary: c0) simp_all

lemma container_emit_states:
  "container (emit_states b names t states) =
     map (\<lambda>i. make_move b (StateWaypoint names (states ! i)) t) [1..<length states]"
  by (simp add: emit_states_def container_foldl_push_back CompositeInstruction_default_def)

lemma container_emit_repeated:
  "container (emit_repeated b names t j steps) =
     replicate (nat steps - 1) (make_move b (StateWaypoint names j) t)"
  by (simp add: emit_repeated_def container_foldl_push_back CompositeInstruction_default_def
      map_replicate_const)

lemma length_interpolate [simp]: "length (interpolate a b steps) = nat (steps + 1)"
  by (simp add: interpolate_def)


subsection \<open>The generator for two joint waypoints\<close>


lemma LVS_jj_InrD:
  assumes "LVSInterpolateStateWaypoint_jj G start goal base request manip_info ls lt lr min_steps
             = Inr c"
  shows "\<exists>E fwd_kin st world_to_base tool fk1 fk2 t.
      env request = Some E
    \<and> getFwdKinematicSolver E
           (manipulator (getCombined manip_info (plan_manipulator_info base))) = Some fwd_kin
    \<and> env_state request = Some st
    \<and> link_transforms st (fwd_getBaseLinkName fwd_kin) = Some world_to_base
    \<and> findTCP E (getCombined manip_info (plan_manipulator_info base)) = Inr tool
    \<and> calcFwdKin fwd_kin (snd start) = Some fk1
    \<and> calcFwdKin fwd_kin (snd goal) = Some fk2
    \<and> lvs_move_type base = Inr t"
  using assms
  by (auto simp: LVSInterpolateStateWaypoint_jj_def Let_def bindE_eq_Inr)




subsection \<open>The cartesian-state generators\<close>

text \<open>
  Claim C7. Each of the four variants of \<^verbatim>\<open>LVSInterpolateCartStateWaypoint\<close> raises the
  runtime error "Not implemented" whatever its arguments are; none returns a composite.
\<close>

theorem C7_cart_state_not_implemented:
  "LVSInterpolateCartStateWaypoint_jj G ip js1 je1 b1 r1 m1 ls1 lt1 lr1 n1
     = Inl (RuntimeError ''Not implemented, PR's are welcome!'')
   \<and> LVSInterpolateCartStateWaypoint_jc G ip js2 ce2 b2 r2 m2 ls2 lt2 lr2 n2
     = Inl (RuntimeError ''Not implemented, PR's are welcome!'')
   \<and> LVSInterpolateCartStateWaypoint_cj G ip cs3 je3 b3 r3 m3 ls3 lt3 lr3 n3
     = Inl (RuntimeError ''Not implemented, PR's are welcome!'')
   \<and> LVSInterpolateCartStateWaypoint_cc G ip cs4 ce4 b4 r4 m4 ls4 lt4 lr4 n4
     = Inl (RuntimeError ''Not implemented, PR's are welcome!'')"
  by (simp add: LVSInterpolateCartStateWaypoint_jj_def LVSInterpolateCartStateWaypoint_jc_def
      LVSInterpolateCartStateWaypoint_cj_def LVSInterpolateCartStateWaypoint_cc_def
      throw_not_implemented_def)

subsection \<open>The statuses of solve\<close>

lemma solve_invalid_input:
  assumes "env request = None \<or> empty_composite (instructions request)"
  shows "solve planner request response
           = Inr (ErrorInvalidInput, response \<lparr> status := Some ErrorInvalidInput \<rparr>)"
  using assms by (auto simp: solve_def checkUserInput_def)

lemma solve_status:
  assumes "solve planner request response = Inr (s, r)"
  shows "(s = SolutionFound \<or> s = ErrorInvalidInput) \<and> status r = Some s"
proof (cases "checkUserInput request")
  case False
  then show ?thesis
    using assms by (auto simp: solve_def)
next
  case True
  then obtain E where E: "env request = Some E"
    by (auto simp: checkUserInput_def split: if_splits)
  show ?thesis
  proof (cases "getStartInstruction request (env_state request)
                  (getFwdKinematicSolver E
                     (manipulator (getManipulatorInfo (instructions request))))")
    case (Inl e)
    then show ?thesis
      using assms True E by (simp add: solve_def Let_def)
  next
    case start: (Inr si)
    show ?thesis
    proof (cases "processCompositeInstruction planner (instructions request)
                    (move_waypoint si) request")
      case (Inl e)
      then show ?thesis
        using assms True E start by (auto simp: solve_def Let_def split: if_splits)
    next
      case (Inr sw)
      then show ?thesis
        using assms True E start by (cases sw) (auto simp: solve_def Let_def)
    qed
  qed
qed

text \<open>
  Claim C6. When the environment of the request is absent or the instruction tree is
  empty, \<^verbatim>\<open>solve\<close> returns \<^verbatim>\<open>ErrorInvalidInput\<close> and leaves the results of the response as
  they were. Whenever \<^verbatim>\<open>solve\<close> returns a status, the status is \<^verbatim>\<open>SolutionFound\<close> or
  \<^verbatim>\<open>ErrorInvalidInput\<close>, never \<^verbatim>\<open>FailedToFindValidSolution\<close>, and it is the status stored in
  the response.
\<close>

theorem C6_solve_statuses:
  "(env request = None \<or> empty_composite (instructions request) \<longrightarrow>
      (\<exists>r. solve planner request response = Inr (ErrorInvalidInput, r)
         \<and> results r = results response \<and> status r = Some ErrorInvalidInput))
   \<and> (\<forall>s r. solve planner request response = Inr (s, r) \<longrightarrow>
         s \<noteq> FailedToFindValidSolution
         \<and> (s = SolutionFound \<or> s = ErrorInvalidInput) \<and> status r = Some s)"
proof (intro conjI impI allI)
  assume "env request = None \<or> empty_composite (instructions request)"
  then show "\<exists>r. solve planner request response = Inr (ErrorInvalidInput, r)
         \<and> results r = results response \<and> status r = Some ErrorInvalidInput"
    by (simp add: solve_invalid_input)
next
  fix s r assume "solve planner request response = Inr (s, r)"
  then have *: "(s = SolutionFound \<or> s = ErrorInvalidInput) \<and> status r = Some s"
    by (rule solve_status)
  then show "s \<noteq> FailedToFindValidSolution" by auto
  from * show "s = SolutionFound \<or> s = ErrorInvalidInput" by simp
  from * show "status r = Some s" by simp
qed

lemma ex_program_start:
  "getStartInstruction (ex_request ex_program) (Some ex_state) (Some ex_fwd_kin) =
     Inr (MoveInstruction_ctor (StateWaypoint [''joint_1''] [0]) START)"
  by (simp add: getStartInstruction_def ex_program_def hasStartInstruction_def
      current_state_waypoint_def ex_simps MoveInstruction_ctor_def at_key_def)

lemma ex_jj_run:
  "LVSInterpolateStateWaypoint_jj ex_ops (ns, [0]) (ns', [2]) (ex_plan w PLAN_FREESPACE)
     (ex_request c) ex_manip 1 1 1 1
   = Inr (emit_states (ex_plan w PLAN_FREESPACE) [''joint_1''] FREESPACE
            (interpolate [0] [2] 3))"
  by (simp add: LVSInterpolateStateWaypoint_jj_def ex_simps Let_def at_key_def
      fwd_kin_or_throw_def lvs_move_type_def isLinear_def isFreespace_def
      segment_steps_values vsub_def norm_vec_def)

lemma ex_program_step:
  "process_plan_instruction ex_planner (StateWaypoint [''joint_1''] [0])
       (ex_plan (JointWaypoint [''joint_1''] [2]) PLAN_FREESPACE) (ex_request ex_program)
     = Inr (emit_states (ex_plan (JointWaypoint [''joint_1''] [2]) PLAN_FREESPACE)
              [''joint_1''] FREESPACE (interpolate [0] [2] 3))"
proof -
  have "getManipulatorInfo ex_program = ex_manip"
    by (simp add: ex_program_def)
  then show ?thesis
    by (simp add: process_plan_instruction_def dispatch_freespace_def isLinear_def
        isFreespace_def ex_simps ex_profile_simps ex_jj_run in_profile_def)
qed

theorem C6_solve_statuses_witness:
  "(\<exists>r. solve ex_planner (ex_request CompositeInstruction_default) ex_response
           = Inr (ErrorInvalidInput, r)
       \<and> results r = results ex_response \<and> status r = Some ErrorInvalidInput)
   \<and> (\<exists>r. solve ex_planner (ex_request ex_program) ex_response = Inr (SolutionFound, r)
       \<and> status r = Some SolutionFound)"
proof -
  have ok: "checkUserInput (ex_request ex_program)"
    by (simp add: checkUserInput_def ex_simps empty_composite_def ex_program_def)
  have mi: "getManipulatorInfo ex_program = ex_manip"
    by (simp add: ex_program_def)
  have walk: "processCompositeInstruction ex_planner ex_program
                (StateWaypoint [''joint_1''] [0]) (ex_request ex_program)
              = Inr (Composite ''DEFAULT'' ORDERED ex_manip NullInstruction
                       [CompositeI (emit_states
                          (ex_plan (JointWaypoint [''joint_1''] [2]) PLAN_FREESPACE)
                          [''joint_1''] FREESPACE (interpolate [0] [2] 3))],
                     JointWaypoint [''joint_1''] [2])"
    using ex_program_step by (simp add: ex_program_def ex_simps)
  have s: "\<exists>r. solve ex_planner (ex_request ex_program) ex_response = Inr (SolutionFound, r)"
    using ok mi ex_program_start walk
    by (simp add: solve_def ex_simps MoveInstruction_ctor_def)
  have empty: "empty_composite (instructions (ex_request CompositeInstruction_default))"
    by (simp add: ex_simps empty_composite_def CompositeInstruction_default_def)
  show ?thesis
    using C6_solve_statuses [of "ex_request CompositeInstruction_default" ex_planner ex_response]
      C6_solve_statuses [of "ex_request ex_program" ex_planner ex_response] s empty
    by blast
qed

text \<open>
  Claim C1. The claim is that an explicit start instruction whose waypoint is of no
  supported kind makes \<^verbatim>\<open>solve\<close> return \<^verbatim>\<open>ErrorInvalidInput\<close>. The call of
  \<^verbatim>\<open>getStartInstruction\<close> stands before the \<^verbatim>\<open>try\<close> block of \<^verbatim>\<open>solve\<close>, so its exception
  leaves \<^verbatim>\<open>solve\<close>: on the program below, whose start instruction carries a null waypoint,
  \<^verbatim>\<open>solve\<close> ends with the runtime error and returns no status.
\<close>

theorem C1_null_start_waypoint_escapes:
  "solve ex_planner (ex_request ex_null_start) ex_response
     = Inl (RuntimeError ''Unsupported waypoint type!'')"
  by (simp add: solve_def checkUserInput_def ex_simps ex_null_start_def
      empty_composite_def getStartInstruction_def hasStartInstruction_def)

subsection \<open>The start instruction\<close>

lemma getJointValues_present:
  assumes "set names \<subseteq> dom (joints st)"
  shows "getJointValues st names = Inr (map (\<lambda>n. the (joints st n)) names)"
  using assms by (induction names) (auto simp: at_key_def)

lemma getJointValues_InrD:
  assumes "getJointValues st names = Inr vals"
  shows "length vals = length names \<and> (\<forall>i<length names. joints st (names ! i) = Some (vals ! i))"
  using assms
proof (induction names arbitrary: vals)
  case Nil
  then show ?case by simp
next
  case (Cons n ns)
  then obtain v vs where v: "joints st n = Some v" and vs: "getJointValues st ns = Inr vs"
    and vals: "vals = v # vs"
    by (auto simp: bindE_eq_Inr)
  from Cons.IH [OF vs] show ?case
    using v vals by (auto simp: nth_Cons split: nat.splits)
qed

lemma current_state_waypoint_present:
  assumes "set (fwd_getJointNames fk) \<subseteq> dom (joints st)"
  shows "\<exists>vals. current_state_waypoint (Some st) (Some fk)
                  = Inr (StateWaypoint (fwd_getJointNames fk) vals)
           \<and> length vals = length (fwd_getJointNames fk)
           \<and> (\<forall>i<length (fwd_getJointNames fk).
                 joints st (fwd_getJointNames fk ! i) = Some (vals ! i))"
proof -
  obtain vals where vals: "getJointValues st (fwd_getJointNames fk) = Inr vals"
    using getJointValues_present [OF assms] by blast
  show ?thesis
    using vals getJointValues_InrD [OF vals] by (simp add: current_state_waypoint_def)
qed

text \<open>
  Claim C8. Without an explicit start instruction, the start instruction that
  \<^verbatim>\<open>getStartInstruction\<close> builds carries a state waypoint with the joint names of the
  manipulator and, for each name in that order, the current value of that joint in the
  environment state. With an explicit start instruction that carries a cartesian
  waypoint the result is the same state waypoint, whatever the pose is, and it does not
  depend on the environment of the request, which is where an inverse-kinematics solver
  would come from. A joint start waypoint passes through as a state waypoint with the
  same names and positions. The joint names of the manipulator are joints of the
  environment state.
\<close>

theorem C8_start_instruction:
  "(\<not> hasStartInstruction (instructions request)
      \<and> set (fwd_getJointNames fk) \<subseteq> dom (joints st) \<longrightarrow>
      (\<exists>m vals. getStartInstruction request (Some st) (Some fk) = Inr m
         \<and> move_type m = START
         \<and> move_waypoint m = StateWaypoint (fwd_getJointNames fk) vals
         \<and> length vals = length (fwd_getJointNames fk)
         \<and> (\<forall>i<length (fwd_getJointNames fk).
               joints st (fwd_getJointNames fk ! i) = Some (vals ! i))))
   \<and> (composite_getStartInstruction (instructions request) = PlanI p
      \<and> plan_waypoint p = CartesianWaypoint pose
      \<and> set (fwd_getJointNames fk) \<subseteq> dom (joints st) \<longrightarrow>
      (\<exists>m vals. getStartInstruction request (Some st) (Some fk) = Inr m
         \<and> move_type m = START
         \<and> move_waypoint m = StateWaypoint (fwd_getJointNames fk) vals
         \<and> length vals = length (fwd_getJointNames fk)
         \<and> (\<forall>i<length (fwd_getJointNames fk).
               joints st (fwd_getJointNames fk ! i) = Some (vals ! i)))
      \<and> getStartInstruction (request \<lparr> env := e \<rparr>) (Some st) (Some fk)
           = getStartInstruction request (Some st) (Some fk))
   \<and> (composite_getStartInstruction (instructions request) = PlanI p
      \<and> plan_waypoint p = JointWaypoint names position \<longrightarrow>
      (\<exists>m. getStartInstruction request current_state fwd_kin = Inr m
         \<and> move_type m = START
         \<and> move_waypoint m = StateWaypoint names position))"
proof (intro conjI impI)
  assume a: "\<not> hasStartInstruction (instructions request)
      \<and> set (fwd_getJointNames fk) \<subseteq> dom (joints st)"
  then obtain vals where "current_state_waypoint (Some st) (Some fk)
                  = Inr (StateWaypoint (fwd_getJointNames fk) vals)
           \<and> length vals = length (fwd_getJointNames fk)
           \<and> (\<forall>i<length (fwd_getJointNames fk).
                 joints st (fwd_getJointNames fk ! i) = Some (vals ! i))"
    using current_state_waypoint_present by blast
  with a show "\<exists>m vals. getStartInstruction request (Some st) (Some fk) = Inr m
         \<and> move_type m = START
         \<and> move_waypoint m = StateWaypoint (fwd_getJointNames fk) vals
         \<and> length vals = length (fwd_getJointNames fk)
         \<and> (\<forall>i<length (fwd_getJointNames fk).
               joints st (fwd_getJointNames fk ! i) = Some (vals ! i))"
    by (simp add: getStartInstruction_def MoveInstruction_ctor_def)
next
  assume a: "composite_getStartInstruction (instructions request) = PlanI p
      \<and> plan_waypoint p = CartesianWaypoint pose
      \<and> set (fwd_getJointNames fk) \<subseteq> dom (joints st)"
  then obtain vals where "current_state_waypoint (Some st) (Some fk)
                  = Inr (StateWaypoint (fwd_getJointNames fk) vals)
           \<and> length vals = length (fwd_getJointNames fk)
           \<and> (\<forall>i<length (fwd_getJointNames fk).
                 joints st (fwd_getJointNames fk ! i) = Some (vals ! i))"
    using current_state_waypoint_present by blast
  with a show "\<exists>m vals. getStartInstruction request (Some st) (Some fk) = Inr m
         \<and> move_type m = START
         \<and> move_waypoint m = StateWaypoint (fwd_getJointNames fk) vals
         \<and> length vals = length (fwd_getJointNames fk)
         \<and> (\<forall>i<length (fwd_getJointNames fk).
               joints st (fwd_getJointNames fk ! i) = Some (vals ! i))"
    by (simp add: getStartInstruction_def MoveInstruction_ctor_def hasStartInstruction_def)
  show "getStartInstruction (request \<lparr> env := e \<rparr>) (Some st) (Some fk)
           = getStartInstruction request (Some st) (Some fk)"
    by (simp add: getStartInstruction_def Let_def cong: Instruction.case_cong)
next
  assume "composite_getStartInstruction (instructions request) = PlanI p
      \<and> plan_waypoint p = JointWaypoint names position"
  then show "\<exists>m. getStartInstruction request current_state fwd_kin = Inr m
         \<and> move_type m = START
         \<and> move_waypoint m = StateWaypoint names position"
    by (simp add: getStartInstruction_def MoveInstruction_ctor_def hasStartInstruction_def)
qed

lemma singleton_values:
  assumes "length vals = length [n]" and "\<forall>i<length [n]. m ([n] ! i) = Some (vals ! i)"
    and "m n = Some v"
  shows "vals = [v]"
proof -
  from assms(1) obtain x where x: "vals = [x]"
    by (cases vals) auto
  with assms(2,3) show ?thesis by simp
qed

theorem C8_start_instruction_witness:
  "(\<exists>m. getStartInstruction (ex_request ex_program) (Some ex_state) (Some ex_fwd_kin) = Inr m
       \<and> move_waypoint m = StateWaypoint [''joint_1''] [0])
   \<and> (\<exists>m. getStartInstruction (ex_request ex_cart_start) (Some ex_state) (Some ex_fwd_kin)
            = Inr m
       \<and> move_waypoint m = StateWaypoint [''joint_1''] [0])
   \<and> (\<exists>m. getStartInstruction (ex_request ex_joint_start) None None = Inr m
       \<and> move_waypoint m = StateWaypoint [''joint_1''] [7])"
proof -
  have names: "fwd_getJointNames ex_fwd_kin = [''joint_1'']"
    by (simp add: ex_fwd_kin_def)
  have j: "joints ex_state ''joint_1'' = Some 0"
    by (simp add: ex_state_def)
  have dom: "set (fwd_getJointNames ex_fwd_kin) \<subseteq> dom (joints ex_state)"
    by (simp add: ex_fwd_kin_def ex_state_def)
  note thm1 = C8_start_instruction [where request = "ex_request ex_program"
      and fk = ex_fwd_kin and st = ex_state]
  note thm2 = C8_start_instruction [where request = "ex_request ex_cart_start"
      and fk = ex_fwd_kin and st = ex_state
      and p = "ex_plan (CartesianWaypoint 5) PLAN_START" and pose = 5]
  note thm3 = C8_start_instruction [where request = "ex_request ex_joint_start"
      and p = "ex_plan (JointWaypoint [''joint_1''] [7]) PLAN_START"
      and names = "[''joint_1'']" and position = "[7]"
      and current_state = None and fwd_kin = None]
  have "\<not> hasStartInstruction (instructions (ex_request ex_program))"
    by (simp add: hasStartInstruction_def ex_request_def ex_program_def)
  with thm1 dom obtain m1 vals1 where
    m1: "getStartInstruction (ex_request ex_program) (Some ex_state) (Some ex_fwd_kin) = Inr m1"
      "move_waypoint m1 = StateWaypoint (fwd_getJointNames ex_fwd_kin) vals1"
      "length vals1 = length (fwd_getJointNames ex_fwd_kin)"
      "\<forall>i<length (fwd_getJointNames ex_fwd_kin).
          joints ex_state (fwd_getJointNames ex_fwd_kin ! i) = Some (vals1 ! i)"
    by blast
  have v1: "vals1 = [0]"
    using m1(3,4) j unfolding names by (rule singleton_values)
  have "composite_getStartInstruction (instructions (ex_request ex_cart_start))
          = PlanI (ex_plan (CartesianWaypoint 5) PLAN_START)
        \<and> plan_waypoint (ex_plan (CartesianWaypoint 5) PLAN_START) = CartesianWaypoint 5"
    by (simp add: ex_request_def ex_cart_start_def ex_plan_def)
  with thm2 dom obtain m2 vals2 where
    m2: "getStartInstruction (ex_request ex_cart_start) (Some ex_state) (Some ex_fwd_kin) = Inr m2"
      "move_waypoint m2 = StateWaypoint (fwd_getJointNames ex_fwd_kin) vals2"
      "length vals2 = length (fwd_getJointNames ex_fwd_kin)"
      "\<forall>i<length (fwd_getJointNames ex_fwd_kin).
          joints ex_state (fwd_getJointNames ex_fwd_kin ! i) = Some (vals2 ! i)"
    by blast
  have v2: "vals2 = [0]"
    using m2(3,4) j unfolding names by (rule singleton_values)
  have "composite_getStartInstruction (instructions (ex_request ex_joint_start))
          = PlanI (ex_plan (JointWaypoint [''joint_1''] [7]) PLAN_START)
        \<and> plan_waypoint (ex_plan (JointWaypoint [''joint_1''] [7]) PLAN_START)
          = JointWaypoint [''joint_1''] [7]"
    by (simp add: ex_request_def ex_joint_start_def ex_plan_def)
  with thm3 obtain m3 where
    m3: "getStartInstruction (ex_request ex_joint_start) None None = Inr m3"
      "move_waypoint m3 = StateWaypoint [''joint_1''] [7]"
    by blast
  show ?thesis
    using m1(1,2) m2(1,2) m3 v1 v2 names by simp
qed

subsection \<open>The tree walk\<close>

lemma in_profile_not_unsupported: "in_profile r \<noteq> Inl unsupported_waypoints"
  by (cases r) (simp_all add: in_profile_def unsupported_waypoints_def)

lemma dispatch_linear_supported:
  assumes "supported_waypoint w" and "supported_waypoint (plan_waypoint p)"
  shows "dispatch_linear prof w p req \<noteq> Inl unsupported_waypoints"
  using assms
  by (cases w; cases "plan_waypoint p")
    (simp_all add: dispatch_linear_def supported_waypoint_def in_profile_not_unsupported)

lemma dispatch_freespace_supported:
  assumes "supported_waypoint w" and "supported_waypoint (plan_waypoint p)"
  shows "dispatch_freespace prof w p req \<noteq> Inl unsupported_waypoints"
  using assms
  by (cases w; cases "plan_waypoint p")
    (simp_all add: dispatch_freespace_def supported_waypoint_def in_profile_not_unsupported)

lemma process_plan_instruction_supported:
  assumes "supported_waypoint w" and "supported_waypoint (plan_waypoint p)"
  shows "process_plan_instruction planner w p req \<noteq> Inl unsupported_waypoints"
proof (cases "find_profile planner (plan_profile p)")
  case None
  then show ?thesis
    by (simp add: process_plan_instruction_def unsupported_waypoints_def)
next
  case (Some prof)
  then show ?thesis
    using dispatch_linear_supported [OF assms] dispatch_freespace_supported [OF assms]
    by (simp add: process_plan_instruction_def unsupported_waypoints_def)
qed

lemma walk_supported:
  "supported_waypoint w \<Longrightarrow> targets_supported_composite c \<Longrightarrow>
     processCompositeInstruction planner c w req \<noteq> Inl unsupported_waypoints
     \<and> (\<forall>seed w'. processCompositeInstruction planner c w req = Inr (seed, w')
           \<longrightarrow> supported_waypoint w')"
  "supported_waypoint w \<Longrightarrow> list_all targets_supported xs \<Longrightarrow>
     process_instructions planner xs acc w req \<noteq> Inl unsupported_waypoints
     \<and> (\<forall>seed w'. process_instructions planner xs acc w req = Inr (seed, w')
           \<longrightarrow> supported_waypoint w')"
proof (induction planner c w req and planner xs acc w req
    rule: processCompositeInstruction_process_instructions.induct)
  case (3 planner c xs seed start_waypoint request)
  then show ?case
    by (auto split: sum.splits)
next
  case (4 planner plan_instruction xs seed start_waypoint request)
  then show ?case
    using process_plan_instruction_supported
      [of start_waypoint plan_instruction planner request]
    by (auto split: sum.splits)
qed simp_all

lemma start_push_back [simp]:
  "composite_getStartInstruction (push_back c x) = composite_getStartInstruction c"
  by (cases c) simp














lemma dispatch_null_target:
  assumes "plan_waypoint p = NullWaypoint"
  shows "dispatch_linear prof w p req = Inl unsupported_waypoints"
    and "dispatch_freespace prof w p req = Inl unsupported_waypoints"
  using assms by (simp_all add: dispatch_linear_def dispatch_freespace_def)


text \<open>
  Claim C10. When the running waypoint and the target of every plan instruction of the
  tree are cartesian, joint or state waypoints, the walk never ends with the exception
  "Unsupported waypoints provided!", and neither arm of the dispatch raises it for a
  supported target.
\<close>

theorem C10_unsupported_waypoints_unreachable:
  assumes "supported_waypoint start_waypoint"
    and "targets_supported_composite program"
  shows "processCompositeInstruction planner program start_waypoint request
           \<noteq> Inl unsupported_waypoints
    \<and> (\<forall>profile p. supported_waypoint (plan_waypoint p) \<longrightarrow>
          dispatch_linear profile start_waypoint p request \<noteq> Inl unsupported_waypoints
        \<and> dispatch_freespace profile start_waypoint p request \<noteq> Inl unsupported_waypoints)"
  using walk_supported(1) [OF assms] dispatch_linear_supported [OF assms(1)]
    dispatch_freespace_supported [OF assms(1)]
  by blast

theorem C10_unsupported_waypoints_unreachable_witness:
  "processCompositeInstruction ex_planner ex_nested (StateWaypoint [''joint_1''] [0])
     (ex_request ex_nested) \<noteq> Inl unsupported_waypoints
   \<and> dispatch_linear ex_profile (StateWaypoint [''joint_1''] [0])
       (ex_plan (CartesianWaypoint 1) PLAN_LINEAR) (ex_request ex_nested)
       \<noteq> Inl unsupported_waypoints"
proof -
  have a: "supported_waypoint (StateWaypoint [''joint_1''] [0] :: real Waypoint)"
    by (simp add: supported_waypoint_def)
  have b: "targets_supported_composite ex_nested"
    by (simp add: ex_nested_def supported_waypoint_def ex_simps)
  have c: "supported_waypoint (plan_waypoint (ex_plan (CartesianWaypoint 1) PLAN_LINEAR))"
    by (simp add: supported_waypoint_def ex_simps)
  show ?thesis
    using C10_unsupported_waypoints_unreachable [OF a b, of ex_planner "ex_request ex_nested"] c
    by blast
qed

subsection \<open>The generators with a cartesian endpoint\<close>

lemma check_joint_order_eq_Inr [simp]:
  "check_joint_order inv_kin fwd_kin = Inr u
     \<longleftrightarrow> inv_getJointNames inv_kin = fwd_getJointNames fwd_kin"
  by (simp add: check_joint_order_def)

lemma check_joint_order_same:
  "inv_getJointNames inv_kin = fwd_getJointNames fwd_kin
     \<Longrightarrow> check_joint_order inv_kin fwd_kin = Inr ()"
  by (simp add: check_joint_order_def)

lemma LVS_jc_run:
  assumes "env request = Some E"
    and "getInvKinematicSolver E
           (manipulator (getCombined manip_info (plan_manipulator_info base))) = Some inv_kin"
    and "getFwdKinematicSolver E
           (manipulator (getCombined manip_info (plan_manipulator_info base))) = Some fwd_kin"
    and "inv_getJointNames inv_kin = fwd_getJointNames fwd_kin"
    and "env_state request = Some st"
    and "link_transforms st (inv_getBaseLinkName inv_kin) = Some world_to_base"
    and "findTCP E (getCombined manip_info (plan_manipulator_info base)) = Inr tool"
    and "calcFwdKin fwd_kin (snd start) = Some p1"
    and "lvs_move_type base = Inr t"
    and "p2 = compose G (inverse_of G world_to_base) (compose G goal (inverse_of G tool))"
  shows "LVSInterpolateStateWaypoint_jc G start goal base request manip_info ls lt lr min_steps =
     Inr (case calcInvKin inv_kin p2 (snd start) of
            Some sols \<Rightarrow>
              emit_states base (fwd_getJointNames fwd_kin) t
                (interpolate (snd start)
                   (closest_solution (\<lambda>solution. norm_vec (vsub solution (snd start))) sols
                      (numJoints inv_kin))
                   (max (max (max (segment_steps (translation_norm G p1 p2) lt)
                                  (segment_steps (angularDistance G p1 p2) lr))
                             (segment_steps (norm_vec (vsub
                                (closest_solution
                                   (\<lambda>solution. norm_vec (vsub solution (snd start))) sols
                                   (numJoints inv_kin))
                                (snd start))) ls))
                        min_steps))
          | None \<Rightarrow>
              emit_repeated base (fwd_getJointNames fwd_kin) t (snd start)
                (max (max (segment_steps (translation_norm G p1 p2) lt)
                          (segment_steps (angularDistance G p1 p2) lr))
                     min_steps))"
  using assms
  by (simp add: LVSInterpolateStateWaypoint_jc_def Let_def fwd_kin_or_throw_def at_key_def
      check_joint_order_same split: option.splits)

lemma LVS_jc_InrD:
  assumes "LVSInterpolateStateWaypoint_jc G start goal base request manip_info ls lt lr min_steps
             = Inr c"
  shows "\<exists>E inv_kin fwd_kin st world_to_base tool p1 t.
      env request = Some E
    \<and> getInvKinematicSolver E
           (manipulator (getCombined manip_info (plan_manipulator_info base))) = Some inv_kin
    \<and> getFwdKinematicSolver E
           (manipulator (getCombined manip_info (plan_manipulator_info base))) = Some fwd_kin
    \<and> inv_getJointNames inv_kin = fwd_getJointNames fwd_kin
    \<and> env_state request = Some st
    \<and> link_transforms st (inv_getBaseLinkName inv_kin) = Some world_to_base
    \<and> findTCP E (getCombined manip_info (plan_manipulator_info base)) = Inr tool
    \<and> calcFwdKin fwd_kin (snd start) = Some p1
    \<and> lvs_move_type base = Inr t"
  using assms
  by (auto simp: LVSInterpolateStateWaypoint_jc_def Let_def bindE_eq_Inr
      split: option.splits)


lemma LVS_cj_InrD:
  assumes "LVSInterpolateStateWaypoint_cj G start goal base request manip_info ls lt lr min_steps
             = Inr c"
  shows "\<exists>E inv_kin fwd_kin st world_to_base tool p2 t.
      env request = Some E
    \<and> getInvKinematicSolver E
           (manipulator (getCombined manip_info (plan_manipulator_info base))) = Some inv_kin
    \<and> getFwdKinematicSolver E
           (manipulator (getCombined manip_info (plan_manipulator_info base))) = Some fwd_kin
    \<and> inv_getJointNames inv_kin = fwd_getJointNames fwd_kin
    \<and> env_state request = Some st
    \<and> link_transforms st (inv_getBaseLinkName inv_kin) = Some world_to_base
    \<and> findTCP E (getCombined manip_info (plan_manipulator_info base)) = Inr tool
    \<and> calcFwdKin fwd_kin (snd goal) = Some p2
    \<and> lvs_move_type base = Inr t"
  using assms
  by (auto simp: LVSInterpolateStateWaypoint_cj_def Let_def bindE_eq_Inr
      split: option.splits)


lemma LVS_cc_InrD:
  assumes "LVSInterpolateStateWaypoint_cc G start goal base request manip_info ls lt lr min_steps
             = Inr c"
  shows "\<exists>E inv_kin fwd_kin st world_to_base tool seed t.
      env request = Some E
    \<and> getInvKinematicSolver E
           (manipulator (getCombined manip_info (plan_manipulator_info base))) = Some inv_kin
    \<and> getFwdKinematicSolver E
           (manipulator (getCombined manip_info (plan_manipulator_info base))) = Some fwd_kin
    \<and> inv_getJointNames inv_kin = fwd_getJointNames fwd_kin
    \<and> env_state request = Some st
    \<and> link_transforms st (inv_getBaseLinkName inv_kin) = Some world_to_base
    \<and> findTCP E (getCombined manip_info (plan_manipulator_info base)) = Inr tool
    \<and> getJointValues st (inv_getJointNames inv_kin) = Inr seed
    \<and> lvs_move_type base = Inr t"
  using assms
  by (auto simp: LVSInterpolateStateWaypoint_cc_def Let_def bindE_eq_Inr case_prod_unfold
      split: option.splits)

lemma length_emit_states_interpolate:
  "length (container (emit_states b names t (interpolate x y k))) = nat k"
  by (simp add: container_emit_states)


subsection \<open>Step counts and segment lengths\<close>







subsection \<open>The choice among the solutions\<close>



lemma closest_solution_as_fold:
  "closest_solution d sols dof =
     snd (foldl (\<lambda>(best, final) c. if d c < best then (d c, c) else (best, final))
            (DBL_MAX, middleRows sols 0 dof) (candidates sols dof))"
  by (simp add: closest_solution_def candidates_def foldl_map Let_def case_prod_unfold)





subsection \<open>Concrete runs of the generator for a joint start and a cartesian end\<close>

lemma DBL_MAX_large: "2 ^ 1000 < DBL_MAX"
  by (simp add: DBL_MAX_def)

lemma small_below_DBL_MAX: "x \<le> 4 \<Longrightarrow> x < DBL_MAX"
proof -
  assume "x \<le> 4"
  also have "(4 :: real) < 2 ^ 1000" by simp
  also note DBL_MAX_large
  finally show ?thesis .
qed

lemma vsub_single: "vsub [x] [y] = [x - y]"
  by (simp add: vsub_def)

lemma candidates_two: "candidates [x, y] (Suc 0) = [[x], [y]]"
  by (simp add: candidates_def middleRows_def upt_rec)

lemma ex_closest:
  "closest_solution (\<lambda>s. norm_vec (vsub s [0])) [7 / 2, 1 / 2] (Suc 0) = [1 / 2]"
proof -
  have "(7 / 2 :: real) < DBL_MAX" "(1 / 2 :: real) < DBL_MAX"
    by (rule small_below_DBL_MAX, simp)+
  then show ?thesis
    by (simp add: closest_solution_as_fold candidates_two vsub_single norm_vec_single
        middleRows_def)
qed

lemma ex_jc_general:
  assumes "lvs_move_type (ex_plan w t) = Inr mt"
  shows "LVSInterpolateStateWaypoint_jc ex_ops (ns, [a]) g (ex_plan w t) (ex_request c)
           ex_manip ls lt lr n
     = Inr (case calcInvKin ex_inv_kin g [a] of
            Some sols \<Rightarrow>
              emit_states (ex_plan w t) [''joint_1''] mt
                (interpolate [a]
                   (closest_solution (\<lambda>solution. norm_vec (vsub solution [a])) sols 1)
                   (max (max (max (segment_steps \<bar>g - a\<bar> lt) (segment_steps 0 lr))
                             (segment_steps (norm_vec (vsub
                                (closest_solution
                                   (\<lambda>solution. norm_vec (vsub solution [a])) sols 1)
                                [a])) ls))
                        n))
          | None \<Rightarrow>
              emit_repeated (ex_plan w t) [''joint_1''] mt [a]
                (max (max (segment_steps \<bar>g - a\<bar> lt) (segment_steps 0 lr)) n))"
proof -
  have p2: "g = compose ex_ops (inverse_of ex_ops 0) (compose ex_ops g (inverse_of ex_ops 0))"
    by (simp add: ex_simps)
  show ?thesis
    using LVS_jc_run [where E = ex_env and st = ex_state and inv_kin = ex_inv_kin
        and fwd_kin = ex_fwd_kin and request = "ex_request c" and manip_info = ex_manip
        and base = "ex_plan w t" and world_to_base = 0 and tool = 0 and start = "(ns, [a])"
        and ?p1.0 = a and t = mt and ?p2.0 = g and G = ex_ops and goal = g
        and ls = ls and lt = lt and lr = lr and min_steps = n, OF _ _ _ _ _ _ _ _ assms p2]
    by (simp add: ex_simps)
qed




text \<open>
  Claim C2. The claim is that a run in which inverse kinematics finds no solution emits
  as many move instructions as the derived step count, all at the fallback joint vector.
  The loop of that branch runs \<^verbatim>\<open>for (long i = 1; i < steps; ++i)\<close>, so it emits one
  instruction less than the step count, while the branch that interpolates emits one per
  step. With one joint at \<open>0\<close>, every segment length \<open>1\<close> and a minimum of \<open>5\<close> steps, the
  step count is \<open>5\<close> for a target at distance \<open>1 / 2\<close> on either side: the run without a
  solution emits \<open>4\<close> instructions (each at the start state), the run with a solution \<open>5\<close>.
\<close>

theorem C2_ik_failure_emits_one_less:
  "(\<exists>c. LVSInterpolateStateWaypoint_jc ex_ops ([''joint_1''], [0]) (- 1 / 2)
           (ex_plan (CartesianWaypoint (- 1 / 2)) PLAN_LINEAR)
           (ex_request CompositeInstruction_default) ex_manip 1 1 1 5 = Inr c
        \<and> container c = replicate 4
             (make_move (ex_plan (CartesianWaypoint (- 1 / 2)) PLAN_LINEAR)
                (StateWaypoint [''joint_1''] [0]) LINEAR))
   \<and> (\<exists>c. LVSInterpolateStateWaypoint_jc ex_ops ([''joint_1''], [0]) (1 / 2)
           (ex_plan (CartesianWaypoint (1 / 2)) PLAN_LINEAR)
           (ex_request CompositeInstruction_default) ex_manip 1 1 1 5 = Inr c
        \<and> length (container c) = 5)"
proof -
  have t: "lvs_move_type (ex_plan w PLAN_LINEAR) = Inr LINEAR" for w :: "real Waypoint"
    by (simp add: lvs_move_type_def isLinear_def ex_simps)
  have fail: "LVSInterpolateStateWaypoint_jc ex_ops ([''joint_1''], [0]) (- 1 / 2)
           (ex_plan (CartesianWaypoint (- 1 / 2)) PLAN_LINEAR)
           (ex_request CompositeInstruction_default) ex_manip 1 1 1 5
         = Inr (emit_repeated (ex_plan (CartesianWaypoint (- 1 / 2)) PLAN_LINEAR)
                  [''joint_1''] LINEAR [0] 5)"
    unfolding ex_jc_general [OF t]
    by (simp add: ex_simps segment_steps_values)
  have ok: "LVSInterpolateStateWaypoint_jc ex_ops ([''joint_1''], [0]) (1 / 2)
           (ex_plan (CartesianWaypoint (1 / 2)) PLAN_LINEAR)
           (ex_request CompositeInstruction_default) ex_manip 1 1 1 5
         = Inr (emit_states (ex_plan (CartesianWaypoint (1 / 2)) PLAN_LINEAR)
                  [''joint_1''] LINEAR (interpolate [0] [1 / 2] 5))"
    unfolding ex_jc_general [OF t]
    by (simp add: ex_simps ex_closest segment_steps_values vsub_single norm_vec_single)
  show ?thesis
    unfolding fail ok
    by (simp add: container_emit_repeated length_emit_states_interpolate)
qed

text \<open>
  What holds in general for the branch without a solution, here for a joint start and a
  cartesian end: one instruction less than the step count, each at the start state.
\<close>

lemma LVS_jc_flat_line:
  assumes "env request = Some E"
    and "getInvKinematicSolver E
           (manipulator (getCombined manip_info (plan_manipulator_info base))) = Some inv_kin"
    and "getFwdKinematicSolver E
           (manipulator (getCombined manip_info (plan_manipulator_info base))) = Some fwd_kin"
    and "inv_getJointNames inv_kin = fwd_getJointNames fwd_kin"
    and "env_state request = Some st"
    and "link_transforms st (inv_getBaseLinkName inv_kin) = Some world_to_base"
    and "findTCP E (getCombined manip_info (plan_manipulator_info base)) = Inr tool"
    and "calcFwdKin fwd_kin (snd start) = Some p1"
    and "lvs_move_type base = Inr t"
    and "p2 = compose G (inverse_of G world_to_base) (compose G goal (inverse_of G tool))"
    and "calcInvKin inv_kin p2 (snd start) = None"
  shows "\<exists>c. LVSInterpolateStateWaypoint_jc G start goal base request manip_info ls lt lr
                min_steps = Inr c
    \<and> container c = replicate
          (nat (max (max (segment_steps (translation_norm G p1 p2) lt)
                         (segment_steps (angularDistance G p1 p2) lr)) min_steps) - 1)
          (make_move base (StateWaypoint (fwd_getJointNames fwd_kin) (snd start)) t)"
  unfolding LVS_jc_run [OF assms(1-10)] assms(11)
  by (simp add: container_emit_repeated)



end
